theory Spec2Isabelle
  imports Main "HOL-Library.Word" "HOL-Library.AList"
begin

unbundle bit_operations_syntax

section \<open>Strings, opcodes and syntax trees\<close>

text \<open>
  A JavaScript string is a sequence of 16-bit code units. \<open>String.fromCharCode(n)\<close>
  keeps \<open>n\<close> modulo \<open>2^16\<close>, \<open>charCodeAt\<close> reads the unit back as a number.
\<close>

type_synonym jsstring = "16 word list"

definition js :: "string \<Rightarrow> jsstring" where
  "js s = map (\<lambda>c. of_nat (of_char c)) s"

definition fromCharCode :: "int \<Rightarrow> 16 word" where
  "fromCharCode n = word_of_int n"

definition charCode :: "16 word \<Rightarrow> int" where
  "charCode c = uint c"

subsection \<open>The instruction set\<close>

text \<open>
  \<open>enum ReflectionOp\<close>: the members are numbered from 0 in the order of declaration.
  Op buffers hold opcodes and their inline operands alike, as numbers.
\<close>

definition ReflectionOp_never :: int where "ReflectionOp_never = 0"
definition ReflectionOp_any :: int where "ReflectionOp_any = 1"
definition ReflectionOp_void :: int where "ReflectionOp_void = 2"
definition ReflectionOp_string :: int where "ReflectionOp_string = 3"
definition ReflectionOp_number :: int where "ReflectionOp_number = 4"
definition ReflectionOp_numberBrand :: int where "ReflectionOp_numberBrand = 5"
definition ReflectionOp_boolean :: int where "ReflectionOp_boolean = 6"
definition ReflectionOp_bigint :: int where "ReflectionOp_bigint = 7"
definition ReflectionOp_null :: int where "ReflectionOp_null = 8"
definition ReflectionOp_undefined :: int where "ReflectionOp_undefined = 9"
definition ReflectionOp_literal :: int where "ReflectionOp_literal = 10"
definition ReflectionOp_function :: int where "ReflectionOp_function = 11"
definition ReflectionOp_method :: int where "ReflectionOp_method = 12"
definition ReflectionOp_methodSignature :: int where "ReflectionOp_methodSignature = 13"
definition ReflectionOp_parameter :: int where "ReflectionOp_parameter = 14"
definition ReflectionOp_property :: int where "ReflectionOp_property = 15"
definition ReflectionOp_propertySignature :: int where "ReflectionOp_propertySignature = 16"
definition ReflectionOp_constructor :: int where "ReflectionOp_constructor = 17"
definition ReflectionOp_class :: int where "ReflectionOp_class = 18"
definition ReflectionOp_classReference :: int where "ReflectionOp_classReference = 19"
definition ReflectionOp_optional :: int where "ReflectionOp_optional = 20"
definition ReflectionOp_readonly :: int where "ReflectionOp_readonly = 21"
definition ReflectionOp_public :: int where "ReflectionOp_public = 22"
definition ReflectionOp_private :: int where "ReflectionOp_private = 23"
definition ReflectionOp_protected :: int where "ReflectionOp_protected = 24"
definition ReflectionOp_abstract :: int where "ReflectionOp_abstract = 25"
definition ReflectionOp_defaultValue :: int where "ReflectionOp_defaultValue = 26"
definition ReflectionOp_description :: int where "ReflectionOp_description = 27"
definition ReflectionOp_enum :: int where "ReflectionOp_enum = 28"
definition ReflectionOp_set :: int where "ReflectionOp_set = 29"
definition ReflectionOp_map :: int where "ReflectionOp_map = 30"
definition ReflectionOp_constEnum :: int where "ReflectionOp_constEnum = 31"
definition ReflectionOp_array :: int where "ReflectionOp_array = 32"
definition ReflectionOp_union :: int where "ReflectionOp_union = 33"
definition ReflectionOp_intersection :: int where "ReflectionOp_intersection = 34"
definition ReflectionOp_indexSignature :: int where "ReflectionOp_indexSignature = 35"
definition ReflectionOp_objectLiteral :: int where "ReflectionOp_objectLiteral = 36"
definition ReflectionOp_mappedType :: int where "ReflectionOp_mappedType = 37"
definition ReflectionOp_in :: int where "ReflectionOp_in = 38"
definition ReflectionOp_frame :: int where "ReflectionOp_frame = 39"
definition ReflectionOp_return :: int where "ReflectionOp_return = 40"
definition ReflectionOp_date :: int where "ReflectionOp_date = 41"
definition ReflectionOp_int8Array :: int where "ReflectionOp_int8Array = 42"
definition ReflectionOp_uint8ClampedArray :: int where "ReflectionOp_uint8ClampedArray = 43"
definition ReflectionOp_uint8Array :: int where "ReflectionOp_uint8Array = 44"
definition ReflectionOp_int16Array :: int where "ReflectionOp_int16Array = 45"
definition ReflectionOp_uint16Array :: int where "ReflectionOp_uint16Array = 46"
definition ReflectionOp_int32Array :: int where "ReflectionOp_int32Array = 47"
definition ReflectionOp_uint32Array :: int where "ReflectionOp_uint32Array = 48"
definition ReflectionOp_float32Array :: int where "ReflectionOp_float32Array = 49"
definition ReflectionOp_float64Array :: int where "ReflectionOp_float64Array = 50"
definition ReflectionOp_bigInt64Array :: int where "ReflectionOp_bigInt64Array = 51"
definition ReflectionOp_arrayBuffer :: int where "ReflectionOp_arrayBuffer = 52"
definition ReflectionOp_promise :: int where "ReflectionOp_promise = 53"
definition ReflectionOp_pointer :: int where "ReflectionOp_pointer = 54"
definition ReflectionOp_arg :: int where "ReflectionOp_arg = 55"
definition ReflectionOp_template :: int where "ReflectionOp_template = 56"
definition ReflectionOp_var :: int where "ReflectionOp_var = 57"
definition ReflectionOp_loads :: int where "ReflectionOp_loads = 58"
definition ReflectionOp_query :: int where "ReflectionOp_query = 59"
definition ReflectionOp_keyof :: int where "ReflectionOp_keyof = 60"
definition ReflectionOp_infer :: int where "ReflectionOp_infer = 61"
definition ReflectionOp_condition :: int where "ReflectionOp_condition = 62"
definition ReflectionOp_jumpCondition :: int where "ReflectionOp_jumpCondition = 63"
definition ReflectionOp_jump :: int where "ReflectionOp_jump = 64"
definition ReflectionOp_call :: int where "ReflectionOp_call = 65"
definition ReflectionOp_inline :: int where "ReflectionOp_inline = 66"
definition ReflectionOp_inlineCall :: int where "ReflectionOp_inlineCall = 67"
definition ReflectionOp_extends :: int where "ReflectionOp_extends = 68"

text \<open>\<open>const enum MappedModifier\<close>: four independent bits.\<close>

definition MappedModifier_optional :: nat where "MappedModifier_optional = 1"
definition MappedModifier_removeOptional :: nat where "MappedModifier_removeOptional = 2"
definition MappedModifier_readonly :: nat where "MappedModifier_readonly = 4"
definition MappedModifier_removeReadonly :: nat where "MappedModifier_removeReadonly = 8"

definition packSizeByte :: nat where "packSizeByte = 6"

definition packSize :: int where "packSize = 2 ^ packSizeByte"

subsection \<open>Syntax trees of the host compiler\<close>

text \<open>
  The transformer reads and rebuilds the host compiler's syntax tree. The tree is a datatype
  with one constructor for each syntax kind that the transformer tells apart and
  \<open>OtherNode\<close> for every other kind. What the host attaches to a node and the transformer
  only reads is stored in the node: the doc-comment tags of the node and of each of its
  ancestors (the answers of \<open>getJSDocTags\<close> along the \<open>parent\<close> chain), the
  \<open>description\<close> doc attribute, and an identity for the nodes that are used as keys.
  Doc comments and the \<open>parent\<close> pointer belong to the nodes of the parsed file: a node
  made by the factory has neither, so its chain is empty and it has no description.
\<close>

datatype EntityName = Identifier jsstring | QualifiedName EntityName jsstring

datatype Keyword =
    StringKeyword | NumberKeyword | BooleanKeyword | BigIntKeyword | VoidKeyword
  | NullKeyword | NeverKeyword | AnyKeyword | UndefinedKeyword | TrueKeyword | FalseKeyword

datatype Modifier =
    ReadonlyKeyword | PublicKeyword | PrivateKeyword | ProtectedKeyword | AbstractKeyword
  | StaticKeyword

datatype Token = QuestionToken | ReadonlyToken | MinusToken | PlusToken

datatype Operator = KeyOfKeyword | UniqueKeyword | ReadonlyOperator

datatype HeritageToken = ExtendsKeyword | ImplementsKeyword

datatype ClassKind = ClassDeclaration | ClassExpression

datatype FunctionKind =
    MethodDeclaration | Constructor | ArrowFunction | FunctionExpression | FunctionType
  | FunctionDeclaration

text \<open>
  The name of a member or parameter: an identifier, or any other name form (string or
  numeric literal, computed name, binding pattern), told apart by a number.
\<close>

datatype PropertyName = IdentifierName jsstring | OtherName nat

record JSDocTag =
  tagName :: jsstring
  comment :: "jsstring option"

type_synonym JSDocChain = "JSDocTag list list"

datatype node =
    KeywordType Keyword
  | ParenthesizedType node
  | ClassLike ClassKind JSDocChain "jsstring list option" "node list"
      \<comment> \<open>kind, doc tags, typeParameters, members\<close>
  | IntersectionType "node list"
  | MappedType jsstring "node option" "Token option" "Token option" "node option"
      \<comment> \<open>typeParameter name, its effective constraint, readonlyToken, questionToken, type\<close>
  | TypeLiteral "node list"
  | InterfaceDeclaration nat "jsstring list option" "(HeritageToken \<times> jsstring option list) list"
      "node list"
      \<comment> \<open>identity, typeParameters, heritageClauses (of each extended type the text of its
          expression when that is an identifier), members\<close>
  | TypeAliasDeclaration nat "jsstring list option" node
      \<comment> \<open>identity, typeParameters, type\<close>
  | TypeReference EntityName "node list option"
      \<comment> \<open>typeName, typeArguments\<close>
  | ArrayType node
  | PropertySignature "PropertyName option" "node option" bool "Modifier list" jsstring
      \<comment> \<open>name, type, questionToken, modifiers, description attribute\<close>
  | PropertyDeclaration JSDocChain "PropertyName option" "node option" bool "Modifier list"
      "node option" jsstring
      \<comment> \<open>doc tags, name, type, questionToken, modifiers, initializer, description attribute\<close>
  | ConditionalType node node node node
      \<comment> \<open>checkType, extendsType, trueType, falseType\<close>
  | InferType jsstring
  | FunctionLike FunctionKind JSDocChain "PropertyName option" "Modifier list"
      "jsstring list option" "node list" "node option" "node list"
      \<comment> \<open>kind, doc tags, name, modifiers, typeParameters, parameters, type, body\<close>
  | Parameter PropertyName "node option" bool "Modifier list" "node option"
      \<comment> \<open>name, type, questionToken, modifiers, initializer\<close>
  | LiteralType node
  | LiteralExpression nat
      \<comment> \<open>a string, numeric or other literal of the source text, by identity\<close>
  | UnionType "node list"
  | IndexSignature "node option" node
      \<comment> \<open>type of the first parameter, type\<close>
  | TypeOperator Operator node
  | IndexedAccessType node node
  | EnumDeclaration nat
  | CallExpression JSDocChain node "node list option" "node list"
      \<comment> \<open>doc tags seen from its type arguments, expression, typeArguments, arguments\<close>
  | Name EntityName
      \<comment> \<open>an identifier or qualified name\<close>
  | PropertyAccessExpression node jsstring
  | ArrayLiteralExpression "node list"
  | StringLiteral jsstring
  | NumericLiteral int
  | RawBoolean bool
      \<comment> \<open>a JavaScript boolean put where an expression is expected\<close>
  | ObjectLiteralExpression "node list"
  | PropertyAssignment jsstring node
  | ExpressionStatement node
  | Assignment node node
  | VariableStatement jsstring "node option"
      \<comment> \<open>a variable statement with one declaration: its name and initializer\<close>
  | SourceFile JSDocChain "node list"
  | OtherNode nat "PropertyName option" "node list"
      \<comment> \<open>any other syntax kind (a method signature, an accessor, a block, ...), with its
          \<open>name\<close> property and its children\<close>

section \<open>Pack structure and encoded payload\<close>

text \<open>
  \<open>StackEntry = Expression | (() => ClassType | Object) | string | number | boolean\<close>.
  Thunks are arrow-function nodes, so they are expressions here.
\<close>

datatype StackEntry =
    EntryString jsstring
  | EntryNumber int
  | EntryBoolean bool
  | EntryExpression node

datatype PackStruct = PackStruct "int list" "StackEntry list"

text \<open>\<open>Packed = string | (StackEntry | string)[]\<close>\<close>

datatype Packed = PackedString jsstring | PackedArray "StackEntry list"

datatype PackOrOps = OfPackStruct PackStruct | OfOps "int list"

fun unpackOps :: "int list \<Rightarrow> jsstring \<Rightarrow> int list" where
  "unpackOps decodedOps [] = decodedOps"
| "unpackOps decodedOps (c # encodedOPs) = unpackOps (decodedOps @ [charCode c - 33]) encodedOPs"

fun pack :: "PackOrOps \<Rightarrow> Packed" where
  "pack (OfOps ops) = PackedString (map (\<lambda>v. fromCharCode (v + 33)) ops)"
| "pack (OfPackStruct (PackStruct ops stack)) =
     (let encodedOps = map (\<lambda>v. fromCharCode (v + 33)) ops
      in if length stack \<noteq> 0 then PackedArray (stack @ [EntryString encodedOps])
         else PackedString encodedOps)"

text \<open>
  \<open>pack[pack.length - 1]\<close> of an empty array is \<open>undefined\<close>, which is not a string;
  \<open>slice(0, -1)\<close> drops the last element.
\<close>

fun unpack :: "Packed \<Rightarrow> PackStruct" where
  "unpack (PackedString encoded) = PackStruct (unpackOps [] encoded) []"
| "unpack (PackedArray elements) =
     (case (if elements = [] then None else Some (last elements)) of
        Some (EntryString encodedOPs) \<Rightarrow>
          PackStruct (unpackOps [] encodedOPs)
            (if length elements > 1 then butlast elements else [])
      | _ \<Rightarrow> PackStruct [] [])"

section \<open>Outcomes\<close>

text \<open>
  A call either returns, or throws an \<open>Error\<close>, or (for the recursions and loops that
  need not end) is cut off by the step bound of the model.
\<close>

datatype error =
    NoActiveCoRoutine \<comment> \<open>\<open>'No active co routine found'\<close>\<close>
  | InferVariableNotFound \<comment> \<open>\<open>'Could not find inserted infer variable'\<close>\<close>
  | TooManyNodes \<comment> \<open>the host's check that a single-node position receives one node\<close>
  | TypeError \<comment> \<open>reading a property of \<open>undefined\<close>\<close>

text \<open>
  \<open>NonNumericOp\<close> marks the one place where the source goes on with a value that the
  model's op buffers (lists of numbers) cannot hold; see \<open>knownClasses\<close> below.
\<close>

datatype 'a outcome = Returns 'a | Throws error | OutOfFuel | NonNumericOp

fun bind :: "'a outcome \<Rightarrow> ('a \<Rightarrow> 'b outcome) \<Rightarrow> 'b outcome" where
  "bind (Returns x) f = f x"
| "bind (Throws e) f = Throws e"
| "bind OutOfFuel f = OutOfFuel"
| "bind NonNumericOp f = NonNumericOp"

fun forEach :: "('a \<Rightarrow> 's \<Rightarrow> 's outcome) \<Rightarrow> 'a list \<Rightarrow> 's \<Rightarrow> 's outcome" where
  "forEach f [] s = Returns s"
| "forEach f (x # xs) s = bind (f x s) (forEach f xs)"

section \<open>The compiler program\<close>

text \<open>
  \<open>interface Frame\<close>. A variable \<open>{name, index}\<close> is a pair. The \<open>previous\<close> pointers
  form a chain; the program keeps the current frame and, in \<open>previous\<close>, the chain behind it
  (nearest first). A frame object is reached only through this chain, so changing a frame
  found in the chain is an update at its position.
\<close>

record Frame =
  variables :: "(jsstring \<times> nat) list"
  opIndex :: nat
  conditional :: bool

record CompilerProgram =
  ops :: "int list"
  stack :: "StackEntry list"
  mainOffset :: nat
  stackPosition :: nat
  frame :: Frame
  previous :: "Frame list"
  activeCoRoutines :: "int list list"
  coRoutines :: "int list list"

definition newFrame :: "nat \<Rightarrow> Frame" where
  "newFrame i = \<lparr>variables = [], opIndex = i, conditional = False\<rparr>"

definition newCompilerProgram :: CompilerProgram where
  "newCompilerProgram =
     \<lparr>ops = [], stack = [], mainOffset = 0, stackPosition = 0, frame = newFrame 0,
      previous = [], activeCoRoutines = [], coRoutines = []\<rparr>"

definition chain :: "CompilerProgram \<Rightarrow> Frame list" where
  "chain p = frame p # previous p"

fun findVariable :: "Frame list \<Rightarrow> jsstring \<Rightarrow> nat \<Rightarrow> (nat \<times> nat) option" where
  "findVariable [] name frameOffset = None"
| "findVariable (f # fs) name frameOffset =
     (case find (\<lambda>v. fst v = name) (variables f) of
        Some variable \<Rightarrow> Some (frameOffset, snd variable)
      | None \<Rightarrow> findVariable fs name (frameOffset + 1))"

text \<open>The conditional frame is returned as its position in the chain (0 is the current frame).\<close>

fun findConditionalFrame :: "Frame list \<Rightarrow> nat option" where
  "findConditionalFrame [] = None"
| "findConditionalFrame (f # fs) =
     (if conditional f then Some 0 else map_option Suc (findConditionalFrame fs))"

text \<open>
  The loop of \<open>buildPackStruct\<close>: \<open>for (i = length - 1; i >= 0; i--) ops.unshift(...coRoutines[i].ops)\<close>;
  the first argument counts the coroutines still to be prepended.
\<close>

fun unshiftCoRoutines :: "nat \<Rightarrow> int list list \<Rightarrow> int list \<Rightarrow> int list" where
  "unshiftCoRoutines 0 cs program = program"
| "unshiftCoRoutines (Suc i) cs program = unshiftCoRoutines i cs ((cs ! i) @ program)"

definition buildPackStruct :: "CompilerProgram \<Rightarrow> PackStruct" where
  "buildPackStruct p =
     (let ops1 = (if length (coRoutines p) \<noteq> 0
                  then unshiftCoRoutines (length (coRoutines p)) (coRoutines p) (ops p)
                  else ops p);
          ops2 = (if mainOffset p \<noteq> 0 then [ReflectionOp_jump, int (mainOffset p)] @ ops1 else ops1)
      in PackStruct ops2 (stack p))"

definition isEmpty :: "CompilerProgram \<Rightarrow> bool" where
  "isEmpty p = (length (ops p) = 0)"

definition pushOp :: "int list \<Rightarrow> CompilerProgram \<Rightarrow> CompilerProgram" where
  "pushOp newOps p =
     (if length (activeCoRoutines p) \<noteq> 0
      then p\<lparr>activeCoRoutines := butlast (activeCoRoutines p) @ [last (activeCoRoutines p) @ newOps]\<rparr>
      else p\<lparr>ops := ops p @ newOps\<rparr>)"

text \<open>\<open>splice(i, 0, ...)\<close> inserts at \<open>i\<close>, or at the end when \<open>i\<close> is beyond it.\<close>

definition splice :: "nat \<Rightarrow> 'a list \<Rightarrow> 'a list \<Rightarrow> 'a list" where
  "splice i new xs = take i xs @ new @ drop i xs"

definition pushOpAtFrame :: "Frame \<Rightarrow> int list \<Rightarrow> CompilerProgram \<Rightarrow> CompilerProgram" where
  "pushOpAtFrame fr newOps p =
     (if length (activeCoRoutines p) \<noteq> 0
      then p\<lparr>activeCoRoutines :=
               butlast (activeCoRoutines p) @ [splice (opIndex fr) newOps (last (activeCoRoutines p))]\<rparr>
      else p\<lparr>ops := splice (opIndex fr) newOps (ops p)\<rparr>)"

definition pushStack :: "StackEntry \<Rightarrow> CompilerProgram \<Rightarrow> nat \<times> CompilerProgram" where
  "pushStack item p =
     (stackPosition p, p\<lparr>stack := stack p @ [item], stackPosition := stackPosition p + 1\<rparr>)"

text \<open>
  \<open>indexOf\<close> compares with \<open>===\<close>: strings, numbers and booleans by value, nodes by
  identity. Nodes of the source tree that are distinct objects are distinct values of the
  model; where the walker passes a node it has just created, which \<open>indexOf\<close> cannot
  find, the model calls \<open>pushStack\<close>.
\<close>

fun indexOf :: "'a list \<Rightarrow> 'a \<Rightarrow> nat option" where
  "indexOf [] x = None"
| "indexOf (y # ys) x = (if y = x then Some 0 else map_option Suc (indexOf ys x))"

definition findOrAddStackEntry :: "StackEntry \<Rightarrow> CompilerProgram \<Rightarrow> nat \<times> CompilerProgram" where
  "findOrAddStackEntry entry p =
     (case indexOf (stack p) entry of Some i \<Rightarrow> (i, p) | None \<Rightarrow> pushStack entry p)"

definition increaseStackPosition :: "CompilerProgram \<Rightarrow> nat \<times> CompilerProgram" where
  "increaseStackPosition p = (stackPosition p, p\<lparr>stackPosition := stackPosition p + 1\<rparr>)"

definition pushFrame :: "bool \<Rightarrow> CompilerProgram \<Rightarrow> CompilerProgram" where
  "pushFrame implicit p =
     (let p1 = (if \<not> implicit then pushOp [ReflectionOp_frame] p else p);
          i = (if length (activeCoRoutines p1) \<noteq> 0 then length (last (activeCoRoutines p1))
               else length (ops p1))
      in p1\<lparr>frame := newFrame i, previous := frame p1 # previous p1\<rparr>)"

definition pushConditionalFrame :: "CompilerProgram \<Rightarrow> CompilerProgram" where
  "pushConditionalFrame p =
     (let p1 = pushFrame False p in p1\<lparr>frame := (frame p1)\<lparr>conditional := True\<rparr>\<rparr>)"

definition popFrame :: "CompilerProgram \<Rightarrow> CompilerProgram" where
  "popFrame p = (case previous p of [] \<Rightarrow> p | f # fs \<Rightarrow> p\<lparr>frame := f, previous := fs\<rparr>)"

definition pushCoRoutine :: "CompilerProgram \<Rightarrow> CompilerProgram" where
  "pushCoRoutine p =
     (let p1 = pushFrame True p in p1\<lparr>activeCoRoutines := activeCoRoutines p1 @ [[]]\<rparr>)"

definition popCoRoutine :: "CompilerProgram \<Rightarrow> (nat \<times> CompilerProgram) outcome" where
  "popCoRoutine p =
     (if activeCoRoutines p = [] then Throws NoActiveCoRoutine
      else
        let coRoutine = last (activeCoRoutines p);
            p1 = popFrame (p\<lparr>activeCoRoutines := butlast (activeCoRoutines p)\<rparr>);
            p2 = (if mainOffset p1 = 0 then p1\<lparr>mainOffset := 2\<rparr> else p1);
            startIndex = mainOffset p2;
            coRoutine' = coRoutine @ [ReflectionOp_return]
        in Returns (startIndex,
             p2\<lparr>coRoutines := coRoutines p2 @ [coRoutine'],
                mainOffset := mainOffset p2 + length coRoutine'\<rparr>))"

text \<open>Changing the frame object at a position of the chain.\<close>

definition updateFrameAt :: "nat \<Rightarrow> (Frame \<Rightarrow> Frame) \<Rightarrow> CompilerProgram \<Rightarrow> CompilerProgram" where
  "updateFrameAt d g p =
     (case d of 0 \<Rightarrow> p\<lparr>frame := g (frame p)\<rparr>
      | Suc k \<Rightarrow> p\<lparr>previous := (previous p)[k := g (previous p ! k)]\<rparr>)"

text \<open>
  \<open>pushVariable(name, frame = this.frame)\<close>. The frame is given by its position in the
  chain. The new variable's \<open>index\<close> is \<open>this.frame.variables.length\<close>, the count of the
  current frame, read before the push.
\<close>

definition pushVariable :: "jsstring \<Rightarrow> nat \<Rightarrow> CompilerProgram \<Rightarrow> nat \<times> CompilerProgram" where
  "pushVariable name d p =
     (let p1 = pushOpAtFrame (chain p ! d) [ReflectionOp_var] p;
          p2 = updateFrameAt d
                 (\<lambda>fr. fr\<lparr>variables := variables fr @ [(name, length (variables (frame p1)))]\<rparr>) p1
      in (length (variables (chain p2 ! d)) - 1, p2))"

definition pushTemplateParameter :: "jsstring \<Rightarrow> CompilerProgram \<Rightarrow> nat \<times> CompilerProgram" where
  "pushTemplateParameter name p =
     (let (i, p1) = findOrAddStackEntry (EntryString name) p;
          p2 = pushOp [ReflectionOp_template, int i] p1;
          p3 = p2\<lparr>frame := (frame p2)\<lparr>variables :=
                  variables (frame p2) @ [(name, length (variables (frame p2)))]\<rparr>\<rparr>
      in (length (variables (frame p3)) - 1, p3))"

text \<open>
  The programs that the methods can build from a new one. The frame handed to
  \<open>pushOpAtFrame\<close> and \<open>pushVariable\<close> is any frame of the chain.
\<close>

inductive reachable :: "CompilerProgram \<Rightarrow> bool" where
  r_new: "reachable newCompilerProgram"
| r_pushOp: "reachable p \<Longrightarrow> reachable (pushOp newOps p)"
| r_pushOpAtFrame: "reachable p \<Longrightarrow> d < length (chain p) \<Longrightarrow> reachable (pushOpAtFrame (chain p ! d) newOps p)"
| r_pushStack: "reachable p \<Longrightarrow> reachable (snd (pushStack item p))"
| r_findOrAddStackEntry: "reachable p \<Longrightarrow> reachable (snd (findOrAddStackEntry item p))"
| r_increaseStackPosition: "reachable p \<Longrightarrow> reachable (snd (increaseStackPosition p))"
| r_pushFrame: "reachable p \<Longrightarrow> reachable (pushFrame implicit p)"
| r_pushConditionalFrame: "reachable p \<Longrightarrow> reachable (pushConditionalFrame p)"
| r_popFrame: "reachable p \<Longrightarrow> reachable (popFrame p)"
| r_pushVariable: "reachable p \<Longrightarrow> d < length (chain p) \<Longrightarrow> reachable (snd (pushVariable name d p))"
| r_pushTemplateParameter: "reachable p \<Longrightarrow> reachable (snd (pushTemplateParameter name p))"
| r_pushCoRoutine: "reachable p \<Longrightarrow> reachable (pushCoRoutine p)"
| r_popCoRoutine: "reachable p \<Longrightarrow> popCoRoutine p = Returns (i, p') \<Longrightarrow> reachable p'"

section \<open>The host and the transformer state\<close>

text \<open>
  What the transformer asks of its surroundings is a parameter of the model:
  \<^item> \<open>resolveDeclaration\<close>: the answer of the declaration resolver for a name node, the
    defining declaration and, when the path went through an import binding, the identity
    of that import specifier;
  \<^item> \<open>getNameAsString\<close>, \<open>getPropertyName\<close>: the helpers of \<open>reflection-ast\<close>;
  \<^item> \<open>tsconfigs\<close>: for each directory from the file's directory up to the root, what
    reading \<open>tsconfig.json\<close> there gives;
  \<^item> the values of \<open>TypeNumberBrand\<close> used by the walker.
\<close>

datatype jsvalue = JString jsstring | JBoolean bool | JNumber int | JNull | JObject

datatype TsConfigProbe =
    NoTsConfig \<comment> \<open>no file in this directory\<close>
  | UnreadableTsConfig \<comment> \<open>reading or parsing throws; the source logs a warning\<close>
  | TsConfig "jsvalue option" \<comment> \<open>parsed; the value of its \<open>reflection\<close> key, if any\<close>

record Host =
  resolveDeclaration :: "node \<Rightarrow> (node \<times> nat option) option"
  getNameAsString :: "PropertyName option \<Rightarrow> jsstring"
  getPropertyName :: "PropertyName option \<Rightarrow> StackEntry"
  tsconfigs :: "TsConfigProbe list"
  TypeNumberBrand_integer :: int
  TypeNumberBrand_int8 :: int
  TypeNumberBrand_int16 :: int

text \<open>
  The fields of \<open>ReflectionTransformer\<close> that change, but for \<open>sourceFile\<close>: the transformer
  reads that field only to hand the tree to the visitors, so the tree is passed along with
  the state. The two maps are keyed by
  declaration node; a \<open>Map\<close> keeps insertion order and \<open>set\<close> on a present key replaces
  the value in place. \<open>synthesized\<close> lists the import specifiers whose flags
  \<open>ensureImportIsEmitted\<close> has changed.
\<close>

record ReflectionTransformer =
  reflectionMode :: "jsstring option"
  compileDeclarations :: "(node \<times> EntityName) list"
  embedDeclarations :: "(node \<times> EntityName) list"
  synthesized :: "nat list"

type_synonym WalkState = "ReflectionTransformer \<times> CompilerProgram"

subsection \<open>Configuration probe\<close>

definition truthy :: "jsvalue \<Rightarrow> bool" where
  "truthy v = (case v of JString s \<Rightarrow> s \<noteq> [] | JBoolean b \<Rightarrow> b | JNumber n \<Rightarrow> n \<noteq> 0
               | JNull \<Rightarrow> False | JObject \<Rightarrow> True)"

definition parseReflectionMode :: "jsvalue option \<Rightarrow> jsvalue" where
  "parseReflectionMode mode =
     (case mode of
        Some (JBoolean b) \<Rightarrow> (if b then JString (js ''default'') else JString (js ''never''))
      | Some v \<Rightarrow> (if truthy v then v else JString (js ''never''))
      | None \<Rightarrow> JString (js ''never''))"

text \<open>The loop over the tags of one node; \<open>tag.comment || true\<close> for the empty comment.\<close>

fun reflectionOfTags :: "JSDocTag list \<Rightarrow> jsvalue option" where
  "reflectionOfTags [] = None"
| "reflectionOfTags (tag # tags) =
     (case comment tag of
        Some c \<Rightarrow>
          (if tagName tag = js ''reflection''
           then Some (parseReflectionMode (Some (if c \<noteq> [] then JString c else JBoolean True)))
           else reflectionOfTags tags)
      | None \<Rightarrow> reflectionOfTags tags)"

text \<open>The \<open>do ... while (current)\<close> loop over the node and its ancestors.\<close>

fun reflectionOfChain :: "JSDocChain \<Rightarrow> jsvalue option" where
  "reflectionOfChain [] = None"
| "reflectionOfChain (tags # parents) =
     (case reflectionOfTags tags of Some m \<Rightarrow> Some m | None \<Rightarrow> reflectionOfChain parents)"

text \<open>The walk up the directories (\<open>resolvedTsConfig\<close> is never written, so every file is read).\<close>

fun reflectionOfTsConfigs :: "TsConfigProbe list \<Rightarrow> jsvalue option" where
  "reflectionOfTsConfigs [] = None"
| "reflectionOfTsConfigs (TsConfig (Some v) # dirs) = Some (parseReflectionMode (Some v))"
| "reflectionOfTsConfigs (_ # dirs) = reflectionOfTsConfigs dirs"

definition findReflectionConfig :: "Host \<Rightarrow> ReflectionTransformer \<Rightarrow> JSDocChain \<Rightarrow> jsvalue" where
  "findReflectionConfig H t doc =
     (case reflectionOfChain doc of
        Some m \<Rightarrow> m
      | None \<Rightarrow>
          (case reflectionMode t of
             Some m \<Rightarrow> JString m
           | None \<Rightarrow>
               (case reflectionOfTsConfigs (tsconfigs H) of
                  Some m \<Rightarrow> m
                | None \<Rightarrow> JString (js ''never''))))"

definition never :: jsvalue where
  "never = JString (js ''never'')"

section \<open>The type-to-bytecode walker\<close>

text \<open>
  Modelled from the spec: \<open>hasModifier\<close> of \<open>reflection-ast\<close> is not part of the source
  at hand; a node has a modifier when the keyword is among its modifiers.
\<close>

definition hasModifier :: "Modifier list \<Rightarrow> Modifier \<Rightarrow> bool" where
  "hasModifier modifiers kind = (kind \<in> set modifiers)"

text \<open>
  The \<open>name\<close> property of a member or parameter node. An index signature has none; a
  member of any other kind (method signature, accessor) carries its own.
\<close>

fun nodeName :: "node \<Rightarrow> PropertyName option" where
  "nodeName (PropertySignature name _ _ _ _) = name"
| "nodeName (PropertyDeclaration _ name _ _ _ _ _) = name"
| "nodeName (FunctionLike _ _ name _ _ _ _ _) = name"
| "nodeName (Parameter name _ _ _ _) = Some name"
| "nodeName (OtherNode _ name _) = name"
| "nodeName _ = None"

definition pushOpIf :: "bool \<Rightarrow> int list \<Rightarrow> CompilerProgram \<Rightarrow> CompilerProgram" where
  "pushOpIf c newOps p = (if c then pushOp newOps p else p)"

definition pushFrameIf :: "bool \<Rightarrow> CompilerProgram \<Rightarrow> CompilerProgram" where
  "pushFrameIf c p = (if c then pushFrame False p else p)"

definition popFrameIf :: "bool \<Rightarrow> CompilerProgram \<Rightarrow> CompilerProgram" where
  "popFrameIf c p = (if c then popFrame p else p)"

text \<open>The keyword cases of the walker.\<close>

definition extractKeyword :: "Keyword \<Rightarrow> CompilerProgram \<Rightarrow> CompilerProgram" where
  "extractKeyword k p =
     (case k of
        StringKeyword \<Rightarrow> pushOp [ReflectionOp_string] p
      | NumberKeyword \<Rightarrow> pushOp [ReflectionOp_number] p
      | BooleanKeyword \<Rightarrow> pushOp [ReflectionOp_boolean] p
      | BigIntKeyword \<Rightarrow> pushOp [ReflectionOp_bigint] p
      | VoidKeyword \<Rightarrow> pushOp [ReflectionOp_void] p
      | NullKeyword \<Rightarrow> pushOp [ReflectionOp_null] p
      | NeverKeyword \<Rightarrow> pushOp [ReflectionOp_never] p
      | AnyKeyword \<Rightarrow> pushOp [ReflectionOp_any] p
      | UndefinedKeyword \<Rightarrow> pushOp [ReflectionOp_undefined] p
      | TrueKeyword \<Rightarrow>
          (let (i, p1) = pushStack (EntryExpression (KeywordType TrueKeyword)) p
           in pushOp [ReflectionOp_literal, int i] p1)
      | FalseKeyword \<Rightarrow>
          (let (i, p1) = pushStack (EntryExpression (KeywordType FalseKeyword)) p
           in pushOp [ReflectionOp_literal, int i] p1))"

text \<open>
  \<open>this.knownClasses[text]\<close> is a property read on an object literal. For sixteen names it
  gives an opcode. For a name that \<open>Object.prototype\<close> defines it gives that inherited
  member, a function or object and so a truthy value, which the source pushes as an op;
  the model stops there with \<open>NonNumericOp\<close>. For any other name it gives \<open>undefined\<close>.
\<close>

datatype KnownClass = KnownOp int | InheritedMember | NotKnown

definition objectPrototypeMembers :: "jsstring list" where
  "objectPrototypeMembers = map js
     [''constructor'', ''hasOwnProperty'', ''isPrototypeOf'', ''propertyIsEnumerable'',
      ''toLocaleString'', ''toString'', ''valueOf'', ''__proto__'', ''__defineGetter__'',
      ''__defineSetter__'', ''__lookupGetter__'', ''__lookupSetter__'']"

definition knownClassesTable :: "(jsstring \<times> int) list" where
  "knownClassesTable =
     [(js ''Int8Array'', ReflectionOp_int8Array),
      (js ''Uint8Array'', ReflectionOp_uint8Array),
      (js ''Uint8ClampedArray'', ReflectionOp_uint8ClampedArray),
      (js ''Int16Array'', ReflectionOp_int16Array),
      (js ''Uint16Array'', ReflectionOp_uint16Array),
      (js ''Int32Array'', ReflectionOp_int32Array),
      (js ''Uint32Array'', ReflectionOp_uint32Array),
      (js ''Float32Array'', ReflectionOp_float32Array),
      (js ''Float64Array'', ReflectionOp_float64Array),
      (js ''ArrayBuffer'', ReflectionOp_arrayBuffer),
      (js ''BigInt64Array'', ReflectionOp_bigInt64Array),
      (js ''Date'', ReflectionOp_date),
      (js ''String'', ReflectionOp_string),
      (js ''Number'', ReflectionOp_number),
      (js ''BigInt'', ReflectionOp_bigint),
      (js ''Boolean'', ReflectionOp_boolean)]"

definition knownClasses :: "jsstring \<Rightarrow> KnownClass" where
  "knownClasses text =
     (case map_of knownClassesTable text of
        Some opcode \<Rightarrow> KnownOp opcode
      | None \<Rightarrow> (if text \<in> set objectPrototypeMembers then InheritedMember else NotKnown))"

text \<open>
  \<open>getDeclarationVariableName\<close>: an identifier node for an identifier, a string otherwise.
  The prefix is two underscores and the code unit U+2126 (the ohm sign), as the source
  text has it.
\<close>

definition omegaPrefix :: jsstring where
  "omegaPrefix = js ''__'' @ [0x2126]"

fun joinQualifiedName :: "EntityName \<Rightarrow> jsstring" where
  "joinQualifiedName (Identifier text) = text"
| "joinQualifiedName (QualifiedName left right) = joinQualifiedName left @ js ''_'' @ right"

fun getDeclarationVariableName :: "EntityName \<Rightarrow> StackEntry" where
  "getDeclarationVariableName (Identifier text) =
     EntryExpression (Name (Identifier (omegaPrefix @ text)))"
| "getDeclarationVariableName (QualifiedName left right) =
     EntryString (omegaPrefix @ joinQualifiedName (QualifiedName left right))"

fun createAccessorForEntityName :: "EntityName \<Rightarrow> node" where
  "createAccessorForEntityName (QualifiedName (Identifier text) right) =
     PropertyAccessExpression (Name (Identifier text)) right"
| "createAccessorForEntityName (QualifiedName left right) =
     PropertyAccessExpression (createAccessorForEntityName left) right"
| "createAccessorForEntityName (Identifier text) = Name (Identifier text)"

text \<open>\<open>f.createArrowFunction(undefined, undefined, [], undefined, undefined, body)\<close>\<close>

definition createArrowFunction :: "node \<Rightarrow> node" where
  "createArrowFunction body = FunctionLike ArrowFunction [] None [] None [] None [body]"

definition referenceThunk :: "EntityName \<Rightarrow> node" where
  "referenceThunk typeName =
     createArrowFunction (case typeName of Identifier _ \<Rightarrow> Name typeName
                          | QualifiedName _ _ \<Rightarrow> createAccessorForEntityName typeName)"

definition ensureImportIsEmitted :: "nat option \<Rightarrow> ReflectionTransformer \<Rightarrow> ReflectionTransformer" where
  "ensureImportIsEmitted importSpecifier t =
     (case importSpecifier of None \<Rightarrow> t | Some i \<Rightarrow> t\<lparr>synthesized := synthesized t @ [i]\<rparr>)"

text \<open>The modifier bits of a mapped type.\<close>

definition mappedModifier :: "Token option \<Rightarrow> Token option \<Rightarrow> nat" where
  "mappedModifier readonlyToken questionToken =
     (let m0 = 0;
          m1 = (if questionToken = Some QuestionToken then m0 OR MappedModifier_optional else m0);
          m2 = (if questionToken = Some MinusToken then m1 OR MappedModifier_removeOptional else m1);
          m3 = (if readonlyToken = Some ReadonlyToken then m2 OR MappedModifier_readonly else m2);
          m4 = (if readonlyToken = Some MinusToken then m3 OR MappedModifier_removeReadonly else m3)
      in m4)"

text \<open>The \<open>InferType\<close> case.\<close>

definition extractInferType :: "jsstring \<Rightarrow> CompilerProgram \<Rightarrow> CompilerProgram outcome" where
  "extractInferType name p =
     (case findConditionalFrame (chain p) of
        Some d \<Rightarrow>
          (case findVariable (chain p) name 0 of
             Some (frameOffset, stackIndex) \<Rightarrow>
               Returns (pushOp [ReflectionOp_infer, int frameOffset, int stackIndex] p)
           | None \<Rightarrow>
               (let (i, p1) = pushVariable name d p
                in case findVariable (chain p1) name 0 of
                     None \<Rightarrow> Throws InferVariableNotFound
                   | Some (frameOffset, stackIndex) \<Rightarrow>
                       Returns (pushOp [ReflectionOp_infer, int frameOffset, int stackIndex] p1)))
      | None \<Rightarrow> Returns (pushOp [ReflectionOp_never] p))"

text \<open>The ops after the type of a property signature, of a property declaration, of a parameter.\<close>

definition propertySignatureOps ::
  "Host \<Rightarrow> PropertyName option \<Rightarrow> bool \<Rightarrow> Modifier list \<Rightarrow> jsstring \<Rightarrow> CompilerProgram \<Rightarrow> CompilerProgram" where
  "propertySignatureOps H name questionToken modifiers description p =
     (let (i, p1) = findOrAddStackEntry (getPropertyName H name) p;
          p2 = pushOp [ReflectionOp_propertySignature, int i] p1;
          p3 = pushOpIf questionToken [ReflectionOp_optional] p2;
          p4 = pushOpIf (hasModifier modifiers ReadonlyKeyword) [ReflectionOp_readonly] p3
      in if description \<noteq> []
         then (let (j, p5) = findOrAddStackEntry (EntryString description) p4
               in pushOp [ReflectionOp_description, int j] p5)
         else p4)"

definition propertyDeclarationOps ::
  "Host \<Rightarrow> PropertyName option \<Rightarrow> bool \<Rightarrow> Modifier list \<Rightarrow> node option \<Rightarrow> jsstring \<Rightarrow> CompilerProgram
     \<Rightarrow> CompilerProgram" where
  "propertyDeclarationOps H name questionToken modifiers initializer description p =
     (let (i, p1) = findOrAddStackEntry (getPropertyName H name) p;
          p2 = pushOp [ReflectionOp_property, int i] p1;
          p3 = pushOpIf questionToken [ReflectionOp_optional] p2;
          p4 = pushOpIf (hasModifier modifiers ReadonlyKeyword) [ReflectionOp_readonly] p3;
          p5 = pushOpIf (hasModifier modifiers PrivateKeyword) [ReflectionOp_private] p4;
          p6 = pushOpIf (hasModifier modifiers ProtectedKeyword) [ReflectionOp_protected] p5;
          p7 = pushOpIf (hasModifier modifiers AbstractKeyword) [ReflectionOp_abstract] p6;
          p8 = (case initializer of
                  None \<Rightarrow> p7
                | Some e \<Rightarrow>
                    (let (j, q) = pushStack (EntryExpression (createArrowFunction e)) p7
                     in pushOp [ReflectionOp_defaultValue, int j] q))
      in if description \<noteq> []
         then (let (j, p9) = findOrAddStackEntry (EntryString description) p8
               in pushOp [ReflectionOp_description, int j] p9)
         else p8)"

definition parameterOps ::
  "Host \<Rightarrow> PropertyName \<Rightarrow> bool \<Rightarrow> Modifier list \<Rightarrow> Modifier list \<Rightarrow> CompilerProgram \<Rightarrow> CompilerProgram" where
  "parameterOps H name questionToken modifiers functionModifiers p =
     (let (i, p1) = findOrAddStackEntry (EntryString (getNameAsString H (Some name))) p;
          p2 = pushOp [ReflectionOp_parameter, int i] p1;
          p3 = pushOpIf questionToken [ReflectionOp_optional] p2;
          p4 = pushOpIf (hasModifier modifiers PublicKeyword) [ReflectionOp_public] p3;
          p5 = pushOpIf (hasModifier modifiers PrivateKeyword) [ReflectionOp_private] p4;
          p6 = pushOpIf (hasModifier modifiers ProtectedKeyword) [ReflectionOp_protected] p5
      in pushOpIf (hasModifier functionModifiers ReadonlyKeyword) [ReflectionOp_readonly] p6)"

definition functionOps ::
  "Host \<Rightarrow> FunctionKind \<Rightarrow> PropertyName option \<Rightarrow> Modifier list \<Rightarrow> CompilerProgram \<Rightarrow> CompilerProgram" where
  "functionOps H kind name modifiers p =
     (let entry = (if kind = Constructor then EntryString (js ''constructor'') else getPropertyName H name);
          (i, p1) = findOrAddStackEntry entry p;
          p2 = pushOp [if kind = MethodDeclaration \<or> kind = Constructor then ReflectionOp_method
                       else ReflectionOp_function, int i] p1
      in if kind = MethodDeclaration
         then pushOpIf (hasModifier modifiers AbstractKeyword) [ReflectionOp_abstract]
               (pushOpIf (hasModifier modifiers ProtectedKeyword) [ReflectionOp_protected]
                 (pushOpIf (hasModifier modifiers PrivateKeyword) [ReflectionOp_private] p2))
         else p2)"

definition pushTemplateParameters :: "jsstring list option \<Rightarrow> CompilerProgram \<Rightarrow> CompilerProgram" where
  "pushTemplateParameters typeParameters p =
     (case typeParameters of
        None \<Rightarrow> p
      | Some names \<Rightarrow> fold (\<lambda>name q. snd (pushTemplateParameter name q)) names p)"

text \<open>
  A reference to a type alias or interface: the name of the hoisted binding goes on the
  stack, the declaration into one of the two queues, and the reference is emitted by name.
  \<open>walk\<close> is the walker, for the type arguments.
\<close>

definition referenceToDeclaration ::
  "(node \<Rightarrow> WalkState \<Rightarrow> WalkState outcome) \<Rightarrow> node \<Rightarrow> nat option \<Rightarrow> EntityName \<Rightarrow> node list option
     \<Rightarrow> WalkState \<Rightarrow> WalkState outcome" where
  "referenceToDeclaration walk declaration importSpecifier typeName typeArguments s =
     (let (index, p1) = pushStack (getDeclarationVariableName typeName) (snd s);
          t1 = (if importSpecifier \<noteq> None
                then (fst s)\<lparr>embedDeclarations := AList.update declaration typeName (embedDeclarations (fst s))\<rparr>
                else (fst s)\<lparr>compileDeclarations := AList.update declaration typeName (compileDeclarations (fst s))\<rparr>)
      in case typeArguments of
           Some arguments \<Rightarrow>
             bind (forEach walk arguments (t1, p1))
               (\<lambda>(t2, p2). Returns (t2, pushOp [ReflectionOp_inlineCall, int index, int (length arguments)] p2))
         | None \<Rightarrow> Returns (t1, pushOp [ReflectionOp_inline, int index] p1))"

text \<open>
  The walker. Its recursion follows the tree and, through the resolver, the declarations
  that names refer to, which need not end (an interface may extend itself); the first
  argument bounds the depth of calls, and \<open>OutOfFuel\<close> is the walk that was cut off.
  \<open>extractMembers\<close> is the local function of the interface case; its list of members seen
  so far is shared by the nested calls, so it is passed along.
\<close>

text \<open>
  The type-reference case, in two parts: what is done with the declaration that the
  resolver found, and before it the names that need no resolver. \<open>walk\<close> is the walker.
\<close>

fun resolvedCase ::
  "(node \<Rightarrow> WalkState \<Rightarrow> WalkState outcome)
   \<Rightarrow> node \<Rightarrow> nat option \<Rightarrow> EntityName \<Rightarrow> node list option \<Rightarrow> WalkState \<Rightarrow> WalkState outcome"
where
  "resolvedCase walk (TypeAliasDeclaration ident typeParameters ty) importSpecifier typeName typeArguments s =
     referenceToDeclaration walk (TypeAliasDeclaration ident typeParameters ty) importSpecifier
       typeName typeArguments s"
| "resolvedCase walk (InterfaceDeclaration ident typeParameters heritageClauses members) importSpecifier
     typeName typeArguments s =
     referenceToDeclaration walk (InterfaceDeclaration ident typeParameters heritageClauses members)
       importSpecifier typeName typeArguments s"
| "resolvedCase walk (TypeLiteral members) importSpecifier typeName typeArguments (t, p) =
     Returns (t\<lparr>embedDeclarations := AList.update (TypeLiteral members) typeName (embedDeclarations t)\<rparr>, p)"
| "resolvedCase walk (MappedType name constraint readonlyToken questionToken ty) importSpecifier
     typeName typeArguments s =
     walk (MappedType name constraint readonlyToken questionToken ty) s"
| "resolvedCase walk (EnumDeclaration ident) importSpecifier typeName typeArguments (t, p) =
     (let (i, p1) = pushStack (EntryExpression (referenceThunk typeName)) p
      in Returns (ensureImportIsEmitted importSpecifier t, pushOp [ReflectionOp_enum, int i] p1))"
| "resolvedCase walk (ClassLike ClassDeclaration doc typeParameters members) importSpecifier
     typeName typeArguments (t, p) =
     bind (case typeArguments of
             Some arguments \<Rightarrow> forEach walk arguments (ensureImportIsEmitted importSpecifier t, p)
           | None \<Rightarrow> Returns (ensureImportIsEmitted importSpecifier t, p))
       (\<lambda>(t1, p1).
          let (i, p2) = pushStack (EntryExpression (referenceThunk typeName)) p1
          in Returns (t1, pushOp [int i] (pushOp [ReflectionOp_classReference] p2)))"
| "resolvedCase walk declaration importSpecifier typeName typeArguments s = walk declaration s"

definition referenceCase ::
  "(node \<Rightarrow> WalkState \<Rightarrow> WalkState outcome)
   \<Rightarrow> Host \<Rightarrow> EntityName \<Rightarrow> node list option \<Rightarrow> WalkState \<Rightarrow> WalkState outcome"
where
  "referenceCase walk H typeName typeArguments s =
     (let identifier = (case typeName of Identifier text \<Rightarrow> Some text | QualifiedName _ _ \<Rightarrow> None);
          known = (case identifier of Some text \<Rightarrow> knownClasses text | None \<Rightarrow> NotKnown)
      in case known of
           KnownOp opcode \<Rightarrow> Returns (fst s, pushOp [opcode] (snd s))
         | InheritedMember \<Rightarrow> NonNumericOp
         | NotKnown \<Rightarrow>
       if identifier = Some (js ''Promise'') then
         bind (case typeArguments of
                 Some (argument # _) \<Rightarrow> walk argument s
               | _ \<Rightarrow> Returns (fst s, pushOp [ReflectionOp_any] (snd s)))
           (\<lambda>(t1, p1). Returns (t1, pushOp [ReflectionOp_promise] p1))
       else if identifier = Some (js ''integer'') then
         Returns (fst s, pushOp [ReflectionOp_numberBrand, TypeNumberBrand_integer H] (snd s))
       else if identifier = Some (js ''int8'') then
         Returns (fst s, pushOp [ReflectionOp_numberBrand, TypeNumberBrand_int8 H] (snd s))
       else if identifier = Some (js ''int16'') then
         Returns (fst s, pushOp [ReflectionOp_numberBrand, TypeNumberBrand_int16 H] (snd s))
       else
         (case (case identifier of Some text \<Rightarrow> findVariable (chain (snd s)) text 0 | None \<Rightarrow> None) of
            Some (frameOffset, stackIndex) \<Rightarrow>
              Returns (fst s, pushOp [ReflectionOp_loads, int frameOffset, int stackIndex] (snd s))
          | None \<Rightarrow>
              (case resolveDeclaration H (Name typeName) of
                 None \<Rightarrow> Returns (fst s, pushOp [ReflectionOp_any] (snd s))
               | Some (declaration, importSpecifier) \<Rightarrow>
                   resolvedCase walk declaration importSpecifier typeName typeArguments s)))"

text \<open>
  The body of the loop over the members of a class, an interface or a type literal: a
  member whose name was seen before is skipped, any other is recorded and walked.
\<close>

definition memberStep ::
  "(node \<Rightarrow> WalkState \<Rightarrow> WalkState outcome) \<Rightarrow> Host \<Rightarrow> node \<Rightarrow> node list \<times> WalkState
     \<Rightarrow> (node list \<times> WalkState) outcome" where
  "memberStep walk H member st =
     (let name = getNameAsString H (nodeName member)
      in if name \<noteq> [] \<and> list_ex (\<lambda>v. getNameAsString H (nodeName v) = name) (fst st)
         then Returns st
         else bind (walk member (snd st)) (\<lambda>s'. Returns (fst st @ [member], s')))"

text \<open>
  The body of the loop over the types of an \<open>extends\<close> clause: \<open>extendType\<close> is the text
  of the expression when that is an identifier.
\<close>

definition extendStep ::
  "(node \<Rightarrow> node list \<times> WalkState \<Rightarrow> (node list \<times> WalkState) outcome) \<Rightarrow> Host \<Rightarrow> jsstring option
     \<Rightarrow> node list \<times> WalkState \<Rightarrow> (node list \<times> WalkState) outcome" where
  "extendStep extract H extendType st =
     (case extendType of
        None \<Rightarrow> Returns st
      | Some text \<Rightarrow>
          (case resolveDeclaration H (Name (Identifier text)) of
             None \<Rightarrow> Returns st
           | Some (declaration, importSpecifier) \<Rightarrow>
               (case declaration of
                  InterfaceDeclaration _ _ _ _ \<Rightarrow> extract declaration st
                | _ \<Rightarrow> Returns st)))"

definition heritageStep ::
  "(node \<Rightarrow> node list \<times> WalkState \<Rightarrow> (node list \<times> WalkState) outcome) \<Rightarrow> Host
     \<Rightarrow> HeritageToken \<times> jsstring option list \<Rightarrow> node list \<times> WalkState
     \<Rightarrow> (node list \<times> WalkState) outcome" where
  "heritageStep extract H heritage st =
     (if fst heritage = ExtendsKeyword then forEach (extendStep extract H) (snd heritage) st
      else Returns st)"

text \<open>\<open>extractMembers\<close>, the local function of the interface case.\<close>

definition membersCase ::
  "(node \<Rightarrow> WalkState \<Rightarrow> WalkState outcome)
   \<Rightarrow> (node \<Rightarrow> node list \<times> WalkState \<Rightarrow> (node list \<times> WalkState) outcome)
   \<Rightarrow> Host \<Rightarrow> node \<Rightarrow> node list \<times> WalkState \<Rightarrow> (node list \<times> WalkState) outcome"
where
  "membersCase walk extract H declaration st =
     (let members = (case declaration of TypeLiteral ms \<Rightarrow> ms | InterfaceDeclaration _ _ _ ms \<Rightarrow> ms | _ \<Rightarrow> []);
          heritageClauses = (case declaration of InterfaceDeclaration _ _ hs _ \<Rightarrow> hs | _ \<Rightarrow> [])
      in bind (forEach (memberStep walk H) members st)
           (forEach (heritageStep extract H) heritageClauses))"

text \<open>
  The body of the loop over the parameters of a function-like node; \<open>modifiers\<close> are those
  of the function, which the source asks for \<open>readonly\<close>.
\<close>

definition parameterStep ::
  "(node \<Rightarrow> WalkState \<Rightarrow> WalkState outcome) \<Rightarrow> Host \<Rightarrow> Modifier list \<Rightarrow> node \<Rightarrow> WalkState
     \<Rightarrow> WalkState outcome" where
  "parameterStep walk H modifiers parameter s =
     (case parameter of
        Parameter (IdentifierName text) ptype pquestion pmodifiers pinitializer \<Rightarrow>
          bind (case ptype of
                  Some ty \<Rightarrow> walk ty s
                | None \<Rightarrow> Returns (fst s, pushOp [ReflectionOp_any] (snd s)))
            (\<lambda>(t1, p1). Returns (t1, parameterOps H (IdentifierName text) pquestion pmodifiers modifiers p1))
      | _ \<Rightarrow> Returns s)"

fun walkCase ::
  "(node \<Rightarrow> WalkState \<Rightarrow> WalkState outcome)
   \<Rightarrow> (node \<Rightarrow> node list \<times> WalkState \<Rightarrow> (node list \<times> WalkState) outcome)
   \<Rightarrow> (EntityName \<Rightarrow> node list option \<Rightarrow> WalkState \<Rightarrow> WalkState outcome)
   \<Rightarrow> Host \<Rightarrow> node \<Rightarrow> WalkState \<Rightarrow> WalkState outcome"
where
  "walkCase walk extract reference H (ParenthesizedType ty) s = walk ty s"
| "walkCase walk extract reference H (KeywordType k) (t, p) = Returns (t, extractKeyword k p)"
| "walkCase walk extract reference H (ClassLike kind doc typeParameters members) (t, p) =
     (let empty = isEmpty p;
          p1 = pushFrameIf (\<not> empty) p;
          p2 = pushTemplateParameters
                 (map_option (map (\<lambda>name. getNameAsString H (Some (IdentifierName name)))) typeParameters) p1
      in bind (forEach (memberStep walk H) members ([], (t, p2)))
           (\<lambda>(seen, (t', p3)). Returns (t', popFrameIf (\<not> empty) (pushOp [ReflectionOp_class] p3))))"
| "walkCase walk extract reference H (IntersectionType types) (t, p) =
     (let empty = isEmpty p;
          p1 = pushFrameIf (\<not> empty) p
      in bind (forEach (walk) types (t, p1))
           (\<lambda>(t', p2). Returns (t', pushOp [ReflectionOp_intersection] p2)))"
| "walkCase walk extract reference H (MappedType name constraint readonlyToken questionToken ty) (t, p) =
     (let p1 = pushFrame False p;
          (i, p2) = pushVariable name 0 p1
      in bind (case constraint of
                 Some c \<Rightarrow> walk c (t, p2)
               | None \<Rightarrow> Returns (t, pushOp [ReflectionOp_never] p2))
           (\<lambda>(t3, p3).
              let p4 = pushCoRoutine p3;
                  modifier = mappedModifier readonlyToken questionToken
              in bind (case ty of
                         Some ty' \<Rightarrow> walk ty' (t3, p4)
                       | None \<Rightarrow> Returns (t3, pushOp [ReflectionOp_never] p4))
                   (\<lambda>(t5, p5).
                      bind (popCoRoutine p5)
                        (\<lambda>(coRoutineIndex, p6).
                           Returns (t5, popFrame
                             (pushOp [ReflectionOp_mappedType, int coRoutineIndex, int modifier] p6))))))"
| "walkCase walk extract reference H (TypeLiteral members) (t, p) =
     bind (extract (TypeLiteral members) ([], (t, pushFrame False p)))
       (\<lambda>(seen, (t', p1)). Returns (t', popFrame (pushOp [ReflectionOp_objectLiteral] p1)))"
| "walkCase walk extract reference H (InterfaceDeclaration ident typeParameters heritageClauses members) (t, p) =
     bind (extract (InterfaceDeclaration ident typeParameters heritageClauses members)
             ([], (t, pushFrame False p)))
       (\<lambda>(seen, (t', p1)). Returns (t', popFrame (pushOp [ReflectionOp_objectLiteral] p1)))"
| "walkCase walk extract reference H (TypeReference typeName typeArguments) s =
     reference typeName typeArguments s"
| "walkCase walk extract reference H (ArrayType elementType) s =
     bind (walk elementType s)
       (\<lambda>(t', p1). Returns (t', pushOp [ReflectionOp_array] p1))"
| "walkCase walk extract reference H (PropertySignature name ty questionToken modifiers description) s =
     (case ty of
        None \<Rightarrow> Returns s
      | Some ty' \<Rightarrow>
          bind (walk ty' s)
            (\<lambda>(t', p1). Returns (t', propertySignatureOps H name questionToken modifiers description p1)))"
| "walkCase walk extract reference H
     (PropertyDeclaration doc name ty questionToken modifiers initializer description) (t, p) =
     (case ty of
        None \<Rightarrow> Returns (t, p)
      | Some ty' \<Rightarrow>
          if findReflectionConfig H t doc = never then Returns (t, p)
          else bind (walk ty' (t, p))
                 (\<lambda>(t', p1). Returns (t', propertyDeclarationOps H name questionToken modifiers
                                             initializer description p1)))"
| "walkCase walk extract reference H (ConditionalType checkType extendsType trueType falseType) (t, p) =
     bind (walk checkType (t, pushConditionalFrame p))
       (\<lambda>s1. bind (walk extendsType s1)
          (\<lambda>(t2, p2). bind (walk trueType (t2, pushOp [ReflectionOp_extends] p2))
             (\<lambda>s3. bind (walk falseType s3)
                (\<lambda>(t4, p4). Returns (t4, popFrame (pushOp [ReflectionOp_condition] p4))))))"
| "walkCase walk extract reference H (InferType name) (t, p) =
     bind (extractInferType name p) (\<lambda>p1. Returns (t, p1))"
| "walkCase walk extract reference H
     (FunctionLike kind doc name modifiers typeParameters parameters ty body) (t, p) =
     (if findReflectionConfig H t doc = never then Returns (t, p)
      else
        bind (forEach (parameterStep walk H modifiers) parameters (t, pushFrameIf (\<not> isEmpty p) p))
          (\<lambda>s2. bind (case ty of
                         Some ty' \<Rightarrow> walk ty' s2
                       | None \<Rightarrow> Returns (fst s2, pushOp [ReflectionOp_any] (snd s2)))
                   (\<lambda>(t3, p3). Returns (t3, functionOps H kind name modifiers p3))))"
| "walkCase walk extract reference H (LiteralType literal) (t, p) =
     (if literal = KeywordType NullKeyword then Returns (t, pushOp [ReflectionOp_null] p)
      else (let (i, p1) = findOrAddStackEntry (EntryExpression literal) p
            in Returns (t, pushOp [ReflectionOp_literal, int i] p1)))"
| "walkCase walk extract reference H (UnionType types) (t, p) =
     (if length types = 0 then Returns (t, p)
      else if length types = 1 then walk (types ! 0) (t, p)
      else
        (let empty = isEmpty p;
             p1 = pushFrameIf (\<not> empty) p
         in bind (forEach (walk) types (t, p1))
              (\<lambda>(t', p2). Returns (t', popFrameIf (\<not> empty) (pushOp [ReflectionOp_union] p2)))))"
| "walkCase walk extract reference H (IndexSignature parameterType ty) (t, p) =
     bind (case parameterType of
             Some ty' \<Rightarrow> walk ty' (t, p)
           | None \<Rightarrow> Returns (t, pushOp [ReflectionOp_any] p))
       (\<lambda>s1. bind (walk ty s1)
                (\<lambda>(t2, p2). Returns (t2, pushOp [ReflectionOp_indexSignature] p2)))"
| "walkCase walk extract reference H (TypeOperator operator ty) s =
     (if operator = KeyOfKeyword
      then bind (walk ty s) (\<lambda>(t', p1). Returns (t', pushOp [ReflectionOp_keyof] p1))
      else Returns s)"
| "walkCase walk extract reference H (IndexedAccessType objectType indexType) s =
     bind (walk objectType s)
       (\<lambda>s1. bind (walk indexType s1)
                (\<lambda>(t2, p2). Returns (t2, pushOp [ReflectionOp_query] p2)))"
| "walkCase walk extract reference H _ (t, p) = Returns (t, pushOp [ReflectionOp_any] p)"

text \<open>
  The three functions call each other; the first argument bounds the depth of the calls.
\<close>

fun extractPackStructOfType :: "nat \<Rightarrow> Host \<Rightarrow> node \<Rightarrow> WalkState \<Rightarrow> WalkState outcome"
and extractMembers :: "nat \<Rightarrow> Host \<Rightarrow> node \<Rightarrow> node list \<times> WalkState \<Rightarrow> (node list \<times> WalkState) outcome"
and extractPackStructOfTypeReference ::
  "nat \<Rightarrow> Host \<Rightarrow> EntityName \<Rightarrow> node list option \<Rightarrow> WalkState \<Rightarrow> WalkState outcome"
where
  "extractPackStructOfType 0 H node s = OutOfFuel"
| "extractPackStructOfType (Suc n) H node s =
     walkCase (extractPackStructOfType n H) (extractMembers n H) (extractPackStructOfTypeReference n H)
       H node s"
| "extractMembers 0 H declaration s = OutOfFuel"
| "extractMembers (Suc n) H declaration s =
     membersCase (extractPackStructOfType n H) (extractMembers n H) H declaration s"
| "extractPackStructOfTypeReference 0 H typeName typeArguments s = OutOfFuel"
| "extractPackStructOfTypeReference (Suc n) H typeName typeArguments s =
     referenceCase (extractPackStructOfType n H) H typeName typeArguments s"

section \<open>The tree rewriter\<close>

subsection \<open>Visiting a tree\<close>

text \<open>
  Both passes of \<open>transformSourceFile\<close> are visitors of the same shape:
  \<open>node = visitEachChild(node, visitor, context)\<close> first, then a decision on the visited
  node. \<open>visitNode post\<close> is such a visitor, \<open>post\<close> being the decision. A visitor may
  return several nodes; in a list of children they are spliced in, in a position that
  holds a single node the host accepts exactly one. \<open>visitEachChild\<close> returns the node
  itself when every child came back as it was; otherwise the factory makes a new node
  around the visited children, which has no doc comments and no parent. The type
  arguments of a call keep their parent, the call of the parsed file, so the chain seen
  from them outlives a rebuilt call and is lost only when they are rebuilt themselves.
\<close>

fun visitNode :: "(node \<Rightarrow> 's \<Rightarrow> (node list \<times> 's) outcome) \<Rightarrow> node \<Rightarrow> 's \<Rightarrow> (node list \<times> 's) outcome"
and visitNodes :: "(node \<Rightarrow> 's \<Rightarrow> (node list \<times> 's) outcome) \<Rightarrow> node list \<Rightarrow> 's \<Rightarrow> (node list \<times> 's) outcome"
and visitOne :: "(node \<Rightarrow> 's \<Rightarrow> (node list \<times> 's) outcome) \<Rightarrow> node \<Rightarrow> 's \<Rightarrow> (node \<times> 's) outcome"
and visitOption :: "(node \<Rightarrow> 's \<Rightarrow> (node list \<times> 's) outcome) \<Rightarrow> node option \<Rightarrow> 's \<Rightarrow> (node option \<times> 's) outcome"
and visitNodesOption ::
  "(node \<Rightarrow> 's \<Rightarrow> (node list \<times> 's) outcome) \<Rightarrow> node list option \<Rightarrow> 's \<Rightarrow> (node list option \<times> 's) outcome"
and visitEachChild :: "(node \<Rightarrow> 's \<Rightarrow> (node list \<times> 's) outcome) \<Rightarrow> node \<Rightarrow> 's \<Rightarrow> (node \<times> 's) outcome"
where
  "visitNode post node s = bind (visitEachChild post node s) (\<lambda>(node', s'). post node' s')"
| "visitNodes post [] s = Returns ([], s)"
| "visitNodes post (node # nodes) s =
     bind (visitNode post node s)
       (\<lambda>(visited, s1). bind (visitNodes post nodes s1) (\<lambda>(rest, s2). Returns (visited @ rest, s2)))"
| "visitOne post node s =
     bind (visitNode post node s)
       (\<lambda>(visited, s'). case visited of [single] \<Rightarrow> Returns (single, s') | _ \<Rightarrow> Throws TooManyNodes)"
| "visitOption post None s = Returns (None, s)"
| "visitOption post (Some node) s = bind (visitOne post node s) (\<lambda>(node', s'). Returns (Some node', s'))"
| "visitNodesOption post None s = Returns (None, s)"
| "visitNodesOption post (Some nodes) s =
     bind (visitNodes post nodes s) (\<lambda>(nodes', s'). Returns (Some nodes', s'))"
| "visitEachChild post (ParenthesizedType ty) s =
     bind (visitOne post ty s) (\<lambda>(ty', s'). Returns (ParenthesizedType ty', s'))"
| "visitEachChild post (ClassLike kind doc typeParameters members) s =
     bind (visitNodes post members s)
       (\<lambda>(members', s').
          Returns (ClassLike kind (if members' = members then doc else []) typeParameters members', s'))"
| "visitEachChild post (IntersectionType types) s =
     bind (visitNodes post types s) (\<lambda>(types', s'). Returns (IntersectionType types', s'))"
| "visitEachChild post (MappedType name constraint readonlyToken questionToken ty) s =
     bind (visitOption post constraint s)
       (\<lambda>(constraint', s1). bind (visitOption post ty s1)
          (\<lambda>(ty', s2). Returns (MappedType name constraint' readonlyToken questionToken ty', s2)))"
| "visitEachChild post (TypeLiteral members) s =
     bind (visitNodes post members s) (\<lambda>(members', s'). Returns (TypeLiteral members', s'))"
| "visitEachChild post (InterfaceDeclaration ident typeParameters heritageClauses members) s =
     bind (visitNodes post members s)
       (\<lambda>(members', s'). Returns (InterfaceDeclaration ident typeParameters heritageClauses members', s'))"
| "visitEachChild post (TypeAliasDeclaration ident typeParameters ty) s =
     bind (visitOne post ty s) (\<lambda>(ty', s'). Returns (TypeAliasDeclaration ident typeParameters ty', s'))"
| "visitEachChild post (TypeReference typeName typeArguments) s =
     bind (visitNodesOption post typeArguments s)
       (\<lambda>(typeArguments', s'). Returns (TypeReference typeName typeArguments', s'))"
| "visitEachChild post (ArrayType elementType) s =
     bind (visitOne post elementType s) (\<lambda>(elementType', s'). Returns (ArrayType elementType', s'))"
| "visitEachChild post (PropertySignature name ty questionToken modifiers description) s =
     bind (visitOption post ty s)
       (\<lambda>(ty', s').
          Returns (PropertySignature name ty' questionToken modifiers
                     (if ty' = ty then description else []), s'))"
| "visitEachChild post (PropertyDeclaration doc name ty questionToken modifiers initializer description) s =
     bind (visitOption post ty s)
       (\<lambda>(ty', s1). bind (visitOption post initializer s1)
          (\<lambda>(initializer', s2).
             let same = (ty' = ty \<and> initializer' = initializer)
             in Returns (PropertyDeclaration (if same then doc else []) name ty' questionToken modifiers
                           initializer' (if same then description else []), s2)))"
| "visitEachChild post (ConditionalType checkType extendsType trueType falseType) s =
     bind (visitOne post checkType s)
       (\<lambda>(checkType', s1). bind (visitOne post extendsType s1)
          (\<lambda>(extendsType', s2). bind (visitOne post trueType s2)
             (\<lambda>(trueType', s3). bind (visitOne post falseType s3)
                (\<lambda>(falseType', s4).
                   Returns (ConditionalType checkType' extendsType' trueType' falseType', s4)))))"
| "visitEachChild post (FunctionLike kind doc name modifiers typeParameters parameters ty body) s =
     bind (visitNodes post parameters s)
       (\<lambda>(parameters', s1). bind (visitOption post ty s1)
          (\<lambda>(ty', s2). bind (visitNodes post body s2)
             (\<lambda>(body', s3).
                let same = (parameters' = parameters \<and> ty' = ty \<and> body' = body)
                in Returns (FunctionLike kind (if same then doc else []) name modifiers typeParameters
                              parameters' ty' body', s3))))"
| "visitEachChild post (Parameter name ty questionToken modifiers initializer) s =
     bind (visitOption post ty s)
       (\<lambda>(ty', s1). bind (visitOption post initializer s1)
          (\<lambda>(initializer', s2). Returns (Parameter name ty' questionToken modifiers initializer', s2)))"
| "visitEachChild post (LiteralType literal) s =
     bind (visitOne post literal s) (\<lambda>(literal', s'). Returns (LiteralType literal', s'))"
| "visitEachChild post (UnionType types) s =
     bind (visitNodes post types s) (\<lambda>(types', s'). Returns (UnionType types', s'))"
| "visitEachChild post (IndexSignature parameterType ty) s =
     bind (visitOption post parameterType s)
       (\<lambda>(parameterType', s1). bind (visitOne post ty s1)
          (\<lambda>(ty', s2). Returns (IndexSignature parameterType' ty', s2)))"
| "visitEachChild post (TypeOperator operator ty) s =
     bind (visitOne post ty s) (\<lambda>(ty', s'). Returns (TypeOperator operator ty', s'))"
| "visitEachChild post (IndexedAccessType objectType indexType) s =
     bind (visitOne post objectType s)
       (\<lambda>(objectType', s1). bind (visitOne post indexType s1)
          (\<lambda>(indexType', s2). Returns (IndexedAccessType objectType' indexType', s2)))"
| "visitEachChild post (CallExpression doc expression typeArguments arguments) s =
     bind (visitOne post expression s)
       (\<lambda>(expression', s1). bind (visitNodesOption post typeArguments s1)
          (\<lambda>(typeArguments', s2). bind (visitNodes post arguments s2)
             (\<lambda>(arguments', s3).
                Returns (CallExpression (if typeArguments' = typeArguments then doc else [])
                           expression' typeArguments' arguments', s3))))"
| "visitEachChild post (PropertyAccessExpression expression name) s =
     bind (visitOne post expression s)
       (\<lambda>(expression', s'). Returns (PropertyAccessExpression expression' name, s'))"
| "visitEachChild post (ArrayLiteralExpression elements) s =
     bind (visitNodes post elements s) (\<lambda>(elements', s'). Returns (ArrayLiteralExpression elements', s'))"
| "visitEachChild post (ObjectLiteralExpression properties) s =
     bind (visitNodes post properties s)
       (\<lambda>(properties', s'). Returns (ObjectLiteralExpression properties', s'))"
| "visitEachChild post (PropertyAssignment name initializer) s =
     bind (visitOne post initializer s) (\<lambda>(initializer', s'). Returns (PropertyAssignment name initializer', s'))"
| "visitEachChild post (ExpressionStatement expression) s =
     bind (visitOne post expression s) (\<lambda>(expression', s'). Returns (ExpressionStatement expression', s'))"
| "visitEachChild post (Assignment left right) s =
     bind (visitOne post left s)
       (\<lambda>(left', s1). bind (visitOne post right s1) (\<lambda>(right', s2). Returns (Assignment left' right', s2)))"
| "visitEachChild post (VariableStatement name initializer) s =
     bind (visitOption post initializer s)
       (\<lambda>(initializer', s'). Returns (VariableStatement name initializer', s'))"
| "visitEachChild post (SourceFile doc statements) s =
     bind (visitNodes post statements s)
       (\<lambda>(statements', s').
          Returns (SourceFile (if statements' = statements then doc else []) statements', s'))"
| "visitEachChild post (OtherNode kind name children) s =
     bind (visitNodes post children s) (\<lambda>(children', s'). Returns (OtherNode kind name children', s'))"
| "visitEachChild post node s = Returns (node, s)"

subsection \<open>Payload expressions\<close>

fun entryToExpression :: "StackEntry \<Rightarrow> node" where
  "entryToExpression (EntryString text) = StringLiteral text"
| "entryToExpression (EntryNumber n) = NumericLiteral n"
| "entryToExpression (EntryBoolean b) = RawBoolean b"
| "entryToExpression (EntryExpression e) = e"

fun valueToExpression :: "Packed \<Rightarrow> node" where
  "valueToExpression (PackedString text) = StringLiteral text"
| "valueToExpression (PackedArray elements) = ArrayLiteralExpression (map entryToExpression elements)"

fun packOpsAndStack :: "PackStruct \<Rightarrow> node option" where
  "packOpsAndStack (PackStruct packedOps packedStack) =
     (if length packedOps = 0 then None
      else Some (valueToExpression (pack (OfPackStruct (PackStruct packedOps packedStack)))))"

text \<open>
  \<open>getTypeOfType\<close>; \<open>doc\<close> is the doc-tag chain of the node handed in. The second
  argument bounds the depth of the walk.
\<close>

definition getTypeOfType ::
  "nat \<Rightarrow> Host \<Rightarrow> JSDocChain \<Rightarrow> node \<Rightarrow> ReflectionTransformer \<Rightarrow> (node option \<times> ReflectionTransformer) outcome"
where
  "getTypeOfType m H doc ty t =
     (if findReflectionConfig H t doc = never then Returns (None, t)
      else bind (extractPackStructOfType m H ty (t, newCompilerProgram))
             (\<lambda>(t', program). Returns (packOpsAndStack (buildPackStruct program), t')))"

subsection \<open>Carriers\<close>

definition typeMember :: "node option \<Rightarrow> node" where
  "typeMember initializer =
     PropertyDeclaration [] (Some (IdentifierName (js ''__type''))) None False [StaticKeyword] initializer []"

definition objectAssign :: "node \<Rightarrow> node \<Rightarrow> node" where
  "objectAssign expression encodedType =
     CallExpression [] (PropertyAccessExpression (Name (Identifier (js ''Object''))) (js ''assign'')) None
       [expression, ObjectLiteralExpression [PropertyAssignment (js ''__type'') encodedType]]"

text \<open>
  \<open>updateClassDeclaration\<close> and \<open>updateClassExpression\<close> with the longer member list make
  a new node.
\<close>

fun decorateClass ::
  "nat \<Rightarrow> Host \<Rightarrow> node \<Rightarrow> ReflectionTransformer \<Rightarrow> (node list \<times> ReflectionTransformer) outcome" where
  "decorateClass m H (ClassLike kind doc typeParameters members) t =
     (if findReflectionConfig H t doc = never then Returns ([ClassLike kind doc typeParameters members], t)
      else bind (getTypeOfType m H doc (ClassLike kind doc typeParameters members) t)
             (\<lambda>(ty, t'). Returns ([ClassLike kind [] typeParameters (members @ [typeMember ty])], t')))"
| "decorateClass m H node t = Returns ([node], t)"

text \<open>\<open>decorateFunctionExpression\<close> and \<open>decorateArrow\<close> have the same body.\<close>

fun decorateFunctionExpression ::
  "nat \<Rightarrow> Host \<Rightarrow> node \<Rightarrow> ReflectionTransformer \<Rightarrow> (node list \<times> ReflectionTransformer) outcome" where
  "decorateFunctionExpression m H (FunctionLike kind doc name modifiers typeParameters parameters ty body) t =
     bind (getTypeOfType m H doc (FunctionLike kind doc name modifiers typeParameters parameters ty body) t)
       (\<lambda>(encodedType, t').
          case encodedType of
            None \<Rightarrow> Returns ([FunctionLike kind doc name modifiers typeParameters parameters ty body], t')
          | Some e \<Rightarrow>
              Returns ([objectAssign (FunctionLike kind doc name modifiers typeParameters parameters ty body) e],
                       t'))"
| "decorateFunctionExpression m H node t = Returns ([node], t)"

definition decorateArrow ::
  "nat \<Rightarrow> Host \<Rightarrow> node \<Rightarrow> ReflectionTransformer \<Rightarrow> (node list \<times> ReflectionTransformer) outcome" where
  "decorateArrow = decorateFunctionExpression"

text \<open>
  \<open>decorateFunctionDeclaration\<close> reads \<open>declaration.name!\<close>; for a declaration without a
  name the property access is built on \<open>undefined\<close>.
\<close>

fun decorateFunctionDeclaration ::
  "nat \<Rightarrow> Host \<Rightarrow> node \<Rightarrow> ReflectionTransformer \<Rightarrow> (node list \<times> ReflectionTransformer) outcome" where
  "decorateFunctionDeclaration m H (FunctionLike kind doc name modifiers typeParameters parameters ty body) t =
     bind (getTypeOfType m H doc (FunctionLike kind doc name modifiers typeParameters parameters ty body) t)
       (\<lambda>(encodedType, t').
          case encodedType of
            None \<Rightarrow> Returns ([FunctionLike kind doc name modifiers typeParameters parameters ty body], t')
          | Some e \<Rightarrow>
              (case name of
                 Some (IdentifierName text) \<Rightarrow>
                   Returns ([FunctionLike kind doc name modifiers typeParameters parameters ty body,
                             ExpressionStatement
                               (Assignment (PropertyAccessExpression (Name (Identifier text)) (js ''__type'')) e)],
                            t')
               | _ \<Rightarrow> Throws TypeError))"
| "decorateFunctionDeclaration m H node t = Returns ([node], t)"

subsection \<open>Call expressions with type arguments\<close>

definition autoTypeFunctions :: "jsstring list" where
  "autoTypeFunctions = [js ''valuesOf'', js ''propertiesOf'', js ''typeOf'']"

text \<open>\<open>node.typeArguments[i]\<close> handed to \<open>getTypeOfType\<close>; \<open>undefined\<close> there is a \<open>TypeError\<close>.\<close>

definition getTypeOfTypeArgument ::
  "nat \<Rightarrow> Host \<Rightarrow> JSDocChain \<Rightarrow> node list \<Rightarrow> nat \<Rightarrow> ReflectionTransformer
     \<Rightarrow> (node option \<times> ReflectionTransformer) outcome" where
  "getTypeOfTypeArgument m H doc typeArguments i t =
     (if i < length typeArguments then getTypeOfType m H doc (typeArguments ! i) t else Throws TypeError)"

text \<open>\<open>typeParameters.findIndex(v => v.name.text === name)\<close>\<close>

definition findIndex :: "jsstring list \<Rightarrow> jsstring \<Rightarrow> nat option" where
  "findIndex typeParameters name = indexOf typeParameters name"

text \<open>The name \<open>X\<close> when a parameter's type is \<open>ReceiveType<X>\<close> with \<open>X\<close> an identifier.\<close>

definition receiveTypeName :: "node \<Rightarrow> jsstring option" where
  "receiveTypeName parameter =
     (case parameter of
        Parameter name (Some (TypeReference (Identifier text) (Some typeArguments))) questionToken modifiers
            initializer \<Rightarrow>
          (if text = js ''ReceiveType''
           then (case typeArguments of
                   TypeReference (Identifier x) args # rest \<Rightarrow> Some x
                 | _ \<Rightarrow> None)
           else None)
      | _ \<Rightarrow> None)"

text \<open>
  The loop over the parameters of the called function's declaration. \<open>None\<close> is the
  \<open>return node\<close> inside the loop; otherwise the arguments and the \<open>replaced\<close> flag.
\<close>

fun receiveTypeLoop ::
  "nat \<Rightarrow> Host \<Rightarrow> JSDocChain \<Rightarrow> jsstring list \<Rightarrow> node list \<Rightarrow> node list \<Rightarrow> nat \<Rightarrow> node list \<times> bool
     \<Rightarrow> ReflectionTransformer \<Rightarrow> ((node list \<times> bool) option \<times> ReflectionTransformer) outcome" where
  "receiveTypeLoop m H doc typeParameters typeArguments [] i (args, replaced) t =
     Returns (Some (args, replaced), t)"
| "receiveTypeLoop m H doc typeParameters typeArguments (parameter # parameters) i (args, replaced) t =
     (let args1 = (if i < length args then args else args @ [Name (Identifier (js ''undefined''))])
      in case receiveTypeName parameter of
           None \<Rightarrow> receiveTypeLoop m H doc typeParameters typeArguments parameters (i + 1) (args1, replaced) t
         | Some name \<Rightarrow>
             (case findIndex typeParameters name of
                None \<Rightarrow>
                  receiveTypeLoop m H doc typeParameters typeArguments parameters (i + 1) (args1, replaced) t
              | Some index \<Rightarrow>
                  bind (getTypeOfTypeArgument m H doc typeArguments index t)
                    (\<lambda>(ty, t').
                       case ty of
                         None \<Rightarrow> Returns (None, t')
                       | Some e \<Rightarrow>
                           receiveTypeLoop m H doc typeParameters typeArguments parameters (i + 1)
                             (args1[i := e], True) t')))"

definition decorateCall ::
  "nat \<Rightarrow> Host \<Rightarrow> JSDocChain \<Rightarrow> node \<Rightarrow> node list \<Rightarrow> node list \<Rightarrow> ReflectionTransformer
     \<Rightarrow> (node list \<times> ReflectionTransformer) outcome" where
  "decorateCall m H doc expression typeArguments arguments t =
     (let node = CallExpression doc expression (Some typeArguments) arguments
      in if (case expression of Name (Identifier text) \<Rightarrow> text \<in> set autoTypeFunctions | _ \<Rightarrow> False)
         then
           (let args = (if length arguments = 0 then [ArrayLiteralExpression []] else arguments)
            in bind (getTypeOfTypeArgument m H doc typeArguments 0 t)
                 (\<lambda>(ty, t').
                    case ty of
                      None \<Rightarrow> Returns ([node], t')
                    | Some e \<Rightarrow> Returns ([CallExpression doc expression (Some typeArguments) (args @ [e])], t')))
         else
           (case resolveDeclaration H expression of
              Some (FunctionLike FunctionDeclaration fdoc fname fmodifiers (Some typeParameters) parameters fty fbody,
                    importSpecifier) \<Rightarrow>
                bind (receiveTypeLoop m H doc typeParameters typeArguments parameters 0 (arguments, False) t)
                  (\<lambda>(result, t').
                     case result of
                       Some (args, True) \<Rightarrow>
                         Returns ([CallExpression doc expression (Some typeArguments) args], t')
                     | _ \<Rightarrow> Returns ([node], t'))
            | _ \<Rightarrow> Returns ([node], t)))"

subsection \<open>The two passes\<close>

text \<open>The decision of the first visitor.\<close>

fun visitor :: "nat \<Rightarrow> Host \<Rightarrow> node \<Rightarrow> ReflectionTransformer \<Rightarrow> (node list \<times> ReflectionTransformer) outcome"
where
  "visitor m H (ClassLike kind doc typeParameters members) t =
     decorateClass m H (ClassLike kind doc typeParameters members) t"
| "visitor m H (FunctionLike kind doc name modifiers typeParameters parameters ty body) t =
     (let node = FunctionLike kind doc name modifiers typeParameters parameters ty body
      in if kind = FunctionExpression then decorateFunctionExpression m H node t
         else if kind = FunctionDeclaration then decorateFunctionDeclaration m H node t
         else if kind = ArrowFunction then decorateArrow m H node t
         else Returns ([node], t))"
| "visitor m H (CallExpression doc expression (Some typeArguments) arguments) t =
     decorateCall m H doc expression typeArguments arguments t"
| "visitor m H node t = Returns ([node], t)"

text \<open>The decision of the second visitor, \<open>compileDeclarations\<close> in \<open>transformSourceFile\<close>.\<close>

definition declarationVariableText :: "EntityName \<Rightarrow> jsstring" where
  "declarationVariableText name = omegaPrefix @ joinQualifiedName name"

definition compileDeclaration ::
  "nat \<Rightarrow> Host \<Rightarrow> node \<Rightarrow> jsstring list option \<Rightarrow> node \<Rightarrow> ReflectionTransformer
     \<Rightarrow> (node list \<times> ReflectionTransformer) outcome" where
  "compileDeclaration m H node typeParameters body t =
     (case map_of (compileDeclarations t) node of
        None \<Rightarrow> Returns ([node], t)
      | Some name \<Rightarrow>
          (let t1 = t\<lparr>compileDeclarations := AList.delete node (compileDeclarations t)\<rparr>;
               typeProgram = pushTemplateParameters typeParameters newCompilerProgram
           in bind (extractPackStructOfType m H body (t1, typeProgram))
                (\<lambda>(t2, program).
                   Returns ([node, VariableStatement (declarationVariableText name)
                                     (packOpsAndStack (buildPackStruct program))], t2))))"

fun compileDeclarationsVisitor ::
  "nat \<Rightarrow> Host \<Rightarrow> node \<Rightarrow> ReflectionTransformer \<Rightarrow> (node list \<times> ReflectionTransformer) outcome" where
  "compileDeclarationsVisitor m H (TypeAliasDeclaration ident typeParameters ty) t =
     compileDeclaration m H (TypeAliasDeclaration ident typeParameters ty) typeParameters ty t"
| "compileDeclarationsVisitor m H (InterfaceDeclaration ident typeParameters heritageClauses members) t =
     compileDeclaration m H (InterfaceDeclaration ident typeParameters heritageClauses members) typeParameters
       (InterfaceDeclaration ident typeParameters heritageClauses members) t"
| "compileDeclarationsVisitor m H node t = Returns ([node], t)"

text \<open>
  \<open>while (this.compileDeclarations.size > 0)\<close>: the first argument bounds the number of
  passes, and \<open>OutOfFuel\<close> is the loop that was still running after that many.
\<close>

fun hoistLoop ::
  "nat \<Rightarrow> nat \<Rightarrow> Host \<Rightarrow> node \<times> ReflectionTransformer \<Rightarrow> (node \<times> ReflectionTransformer) outcome" where
  "hoistLoop fuel m H (file, t) =
     (if length (compileDeclarations t) > 0
      then (case fuel of
              0 \<Rightarrow> OutOfFuel
            | Suc fuel' \<Rightarrow>
                bind (visitOne (compileDeclarationsVisitor m H) file t) (hoistLoop fuel' m H))
      else Returns (file, t))"

definition sourceFileDoc :: "node \<Rightarrow> JSDocChain" where
  "sourceFileDoc file = (case file of SourceFile doc _ \<Rightarrow> doc | _ \<Rightarrow> [])"

definition transformSourceFile ::
  "nat \<Rightarrow> nat \<Rightarrow> Host \<Rightarrow> node \<Rightarrow> ReflectionTransformer \<Rightarrow> (node \<times> ReflectionTransformer) outcome" where
  "transformSourceFile fuel m H file t =
     (if findReflectionConfig H t (sourceFileDoc file) = never then Returns (file, t)
      else bind (visitOne (visitor m H) file t) (hoistLoop fuel m H))"

definition newTransformer :: ReflectionTransformer where
  "newTransformer =
     \<lparr>reflectionMode = None, compileDeclarations = [], embedDeclarations = [], synthesized = []\<rparr>"

definition withReflectionMode :: "jsstring \<Rightarrow> ReflectionTransformer \<Rightarrow> ReflectionTransformer" where
  "withReflectionMode mode t = t\<lparr>reflectionMode := Some mode\<rparr>"

section \<open>Invariant and example inputs\<close>

text \<open>
  The main offset of a program: 0 while no coroutine is completed, afterwards 2 (for the
  \<open>jump\<close> and its operand) plus the length of the completed coroutines.
\<close>

definition mainOffsetOk :: "CompilerProgram \<Rightarrow> bool" where
  "mainOffsetOk p =
     (mainOffset p = (if coRoutines p = [] then 0 else 2 + length (concat (coRoutines p))))"

text \<open>A program with one completed coroutine \<open>string, return\<close> and the main program \<open>number\<close>.\<close>

definition oneCoRoutine :: CompilerProgram where
  "oneCoRoutine = newCompilerProgram\<lparr>ops := [ReflectionOp_number], mainOffset := 4,
      coRoutines := [[ReflectionOp_string, ReflectionOp_return]]\<rparr>"

text \<open>
  A host whose resolver is given, with the name helpers answering with the text of an
  identifier, and a transformer configured with \<open>withReflectionMode('always')\<close>.
\<close>

definition plainHost :: "(node \<Rightarrow> (node \<times> nat option) option) \<Rightarrow> Host" where
  "plainHost resolve =
     \<lparr>resolveDeclaration = resolve,
      getNameAsString = (\<lambda>name. case name of Some (IdentifierName text) \<Rightarrow> text | _ \<Rightarrow> []),
      getPropertyName =
        (\<lambda>name. case name of Some (IdentifierName text) \<Rightarrow> EntryString text | _ \<Rightarrow> EntryString []),
      tsconfigs = [],
      TypeNumberBrand_integer = 0, TypeNumberBrand_int8 = 1, TypeNumberBrand_int16 = 2\<rparr>"

definition always :: ReflectionTransformer where
  "always = withReflectionMode (js ''always'') newTransformer"

definition property :: "string \<Rightarrow> node \<Rightarrow> node" where
  "property name ty = PropertySignature (Some (IdentifierName (js name))) (Some ty) False [] []"

text \<open>\<open>type T = { a: string & number }\<close> and \<open>type T = { a: string | number }\<close>\<close>

definition intersectionInLiteral :: node where
  "intersectionInLiteral =
     TypeLiteral [property ''a'' (IntersectionType [KeywordType StringKeyword, KeywordType NumberKeyword])]"

definition unionInLiteral :: node where
  "unionInLiteral =
     TypeLiteral [property ''a'' (UnionType [KeywordType StringKeyword, KeywordType NumberKeyword])]"


text \<open>
  A program just after a conditional frame was opened, the frame of that program once \<open>X\<close>
  is bound in it, and a later program with one more frame open.
\<close>

definition conditionalOpened :: CompilerProgram where
  "conditionalOpened =
     newCompilerProgram\<lparr>ops := [ReflectionOp_frame],
       frame := \<lparr>variables = [], opIndex = 1, conditional = True\<rparr>, previous := [newFrame 0]\<rparr>"






text \<open>
  \<open>interface Node { next: Node }\<close> and \<open>class M { n: Node }\<close> in one file, the resolver
  answering \<open>Node\<close> with that interface declaration; the binding that a hoisting pass emits
  for it, the \<open>__type\<close> member the class receives, the transformer state with the interface
  queued, and the file after \<open>k\<close> passes.
\<close>

definition selfDeclaration :: node where
  "selfDeclaration =
     InterfaceDeclaration 1 None [] [property ''next'' (TypeReference (Identifier (js ''Node'')) None)]"

definition selfResolver :: "node \<Rightarrow> (node \<times> nat option) option" where
  "selfResolver name =
     (if name = Name (Identifier (js ''Node'')) then Some (selfDeclaration, None) else None)"

definition selfUser :: "node list \<Rightarrow> node" where
  "selfUser extra =
     ClassLike ClassDeclaration [] None
       (PropertyDeclaration [] (Some (IdentifierName (js ''n'')))
          (Some (TypeReference (Identifier (js ''Node'')) None)) False [] None [] # extra)"

definition selfBinding :: node where
  "selfBinding =
     VariableStatement (omegaPrefix @ js ''Node'')
       (Some (ArrayLiteralExpression
          [Name (Identifier (omegaPrefix @ js ''Node'')), StringLiteral (js ''next''),
           StringLiteral (map (\<lambda>v. fromCharCode (v + 33))
             [ReflectionOp_frame, ReflectionOp_inline, 0, ReflectionOp_propertySignature, 1,
              ReflectionOp_objectLiteral])]))"

definition selfType :: node where
  "selfType = typeMember (Some (ArrayLiteralExpression
          [Name (Identifier (omegaPrefix @ js ''Node'')), StringLiteral (js ''n''),
           StringLiteral (map (\<lambda>v. fromCharCode (v + 33))
             [ReflectionOp_inline, 0, ReflectionOp_property, 1, ReflectionOp_class])]))"

definition selfQueued :: ReflectionTransformer where
  "selfQueued = always\<lparr>compileDeclarations := [(selfDeclaration, Identifier (js ''Node''))]\<rparr>"

definition selfFile :: "nat \<Rightarrow> node" where
  "selfFile k = SourceFile [] (selfDeclaration # replicate k selfBinding @ [selfUser [selfType]])"

text \<open>
  \<open>type A = string\<close> and \<open>type C = A\<close> declared in the file, \<open>type B = number\<close> reached
  through an import binding; the classes \<open>class M { x: A }\<close>, \<open>class M { x: B }\<close> and
  \<open>class M { x: A; y: C }\<close>, each followed by the members added to it; the bindings that
  hoisting emits for \<open>A\<close> and \<open>C\<close>; and the transformer state with \<open>B\<close> in the
  embed-foreign queue.
\<close>

definition localAlias :: node where
  "localAlias = TypeAliasDeclaration 1 None (KeywordType StringKeyword)"

definition importedAlias :: node where
  "importedAlias = TypeAliasDeclaration 2 None (KeywordType NumberKeyword)"

definition chainedAlias :: node where
  "chainedAlias = TypeAliasDeclaration 3 None (TypeReference (Identifier (js ''A'')) None)"

definition aliasResolver :: "node \<Rightarrow> (node \<times> nat option) option" where
  "aliasResolver name =
     (if name = Name (Identifier (js ''A'')) then Some (localAlias, None)
      else if name = Name (Identifier (js ''B'')) then Some (importedAlias, Some 7)
      else if name = Name (Identifier (js ''C'')) then Some (chainedAlias, None)
      else None)"

definition typedProperty :: "string \<Rightarrow> string \<Rightarrow> node" where
  "typedProperty name ty =
     PropertyDeclaration [] (Some (IdentifierName (js name))) (Some (TypeReference (Identifier (js ty)) None))
       False [] None []"

definition localUser :: "node list \<Rightarrow> node" where
  "localUser extra = ClassLike ClassDeclaration [] None (typedProperty ''x'' ''A'' # extra)"

definition importUser :: "node list \<Rightarrow> node" where
  "importUser extra = ClassLike ClassDeclaration [] None (typedProperty ''x'' ''B'' # extra)"

definition chainUser :: "node list \<Rightarrow> node" where
  "chainUser extra =
     ClassLike ClassDeclaration [] None (typedProperty ''x'' ''A'' # typedProperty ''y'' ''C'' # extra)"

definition localBinding :: node where
  "localBinding = VariableStatement (omegaPrefix @ js ''A'') (Some (StringLiteral [36]))"

definition chainedBinding :: node where
  "chainedBinding =
     VariableStatement (omegaPrefix @ js ''C'')
       (Some (ArrayLiteralExpression
          [Name (Identifier (omegaPrefix @ js ''A'')),
           StringLiteral (map (\<lambda>v. fromCharCode (v + 33)) [ReflectionOp_inline, 0])]))"

definition importQueued :: ReflectionTransformer where
  "importQueued = always\<lparr>embedDeclarations := [(importedAlias, Identifier (js ''B''))]\<rparr>"



text \<open>
  The buffer that \<open>pushOp\<close> appends to and \<open>pushOpAtFrame\<close> splices into: the ops of the
  innermost open coroutine, or the main ops when none is open.
\<close>

definition activeOps :: "CompilerProgram \<Rightarrow> int list" where
  "activeOps p = (if length (activeCoRoutines p) \<noteq> 0 then last (activeCoRoutines p) else ops p)"

text \<open>
  \<open>{ [K in string]: K extends infer X ? X : never }\<close>, and the program of its walk at the
  moment \<open>infer X\<close> is reached: the mapped type has opened its frame, bound \<open>K\<close>, emitted
  the constraint and opened its coroutine, in which the conditional type has opened its
  frame and emitted the check type.
\<close>

definition inferInMapped :: node where
  "inferInMapped =
     MappedType (js ''K'') (Some (KeywordType StringKeyword)) None None
       (Some (ConditionalType (TypeReference (Identifier (js ''K'')) None) (InferType (js ''X''))
                (TypeReference (Identifier (js ''X'')) None) (KeywordType NeverKeyword)))"


section \<open>Properties of the encoding\<close>

lemma unpackOps_eq: "unpackOps decodedOps encoded = decodedOps @ map (\<lambda>c. charCode c - 33) encoded"
  by (induction encoded arbitrary: decodedOps) simp_all

lemma charCode_fromCharCode:
  assumes "0 \<le> v" "v < packSize"
  shows "charCode (fromCharCode (v + 33)) - 33 = v"
proof -
  have "v < 64" using assms(2) by (simp add: packSize_def packSizeByte_def)
  then have "(v + 33) mod 2 ^ LENGTH(16) = v + 33" using assms(1) by simp
  moreover have "uint (word_of_int (v + 33) :: 16 word) = (v + 33) mod 2 ^ LENGTH(16)"
    by (rule uint_word_of_int)
  ultimately show ?thesis by (simp only: charCode_def fromCharCode_def)
qed

lemma decode_encode:
  assumes "\<forall>v \<in> set vs. 0 \<le> v \<and> v < packSize"
  shows "unpackOps [] (map (\<lambda>v. fromCharCode (v + 33)) vs) = vs"
  using assms by (induction vs) (simp_all add: unpackOps_eq charCode_fromCharCode)

text \<open>
  C1. For a pack structure whose op values (opcodes and inline operands) all lie in the
  packable range \<open>0 \<le> v < packSize\<close>, unpacking the packed payload gives back the same
  op sequence and the same stack.
\<close>

theorem unpack_pack_roundtrip:
  assumes "\<forall>v \<in> set vs. 0 \<le> v \<and> v < packSize"
  shows "unpack (pack (OfPackStruct (PackStruct vs st))) = PackStruct vs st"
proof (cases "st = []")
  case True
  then show ?thesis using decode_encode [OF assms] by simp
next
  case False
  then have "length st + 1 > 1" by (cases st) simp_all
  then show ?thesis using False decode_encode [OF assms] by (simp add: Let_def)
qed

theorem unpack_pack_roundtrip_witness:
  "(0 \<le> ReflectionOp_string \<and> ReflectionOp_string < packSize)
   \<and> (0 \<le> ReflectionOp_propertySignature \<and> ReflectionOp_propertySignature < packSize)
   \<and> (0 \<le> ReflectionOp_objectLiteral \<and> ReflectionOp_objectLiteral < packSize)
   \<and> unpack (pack (OfPackStruct (PackStruct
        [ReflectionOp_string, ReflectionOp_propertySignature, 0, ReflectionOp_objectLiteral]
        [EntryString (js ''v'')])))
     = PackStruct [ReflectionOp_string, ReflectionOp_propertySignature, 0, ReflectionOp_objectLiteral]
        [EntryString (js ''v'')]"
proof -
  have h: "\<forall>v \<in> set [ReflectionOp_string, ReflectionOp_propertySignature, 0, ReflectionOp_objectLiteral].
      0 \<le> v \<and> v < packSize"
    by (simp add: ReflectionOp_string_def ReflectionOp_propertySignature_def
        ReflectionOp_objectLiteral_def packSize_def packSizeByte_def)
  show ?thesis using h unpack_pack_roundtrip [OF h, of "[EntryString (js ''v'')]"] by simp
qed

text \<open>
  C10. \<open>unpack\<close> has no failing branch. On an array payload whose last element is not a
  string (the empty array included) it returns the empty pack structure, and on a
  one-element array holding only the encoded string it returns the decoded ops with an
  empty stack.
\<close>

theorem unpack_total:
  "((elements = [] \<or> (\<forall>s. last elements \<noteq> EntryString s))
      \<longrightarrow> unpack (PackedArray elements) = PackStruct [] [])
   \<and> unpack (PackedArray [EntryString encoded])
       = PackStruct (map (\<lambda>c. charCode c - 33) encoded) []"
  by (auto simp: unpackOps_eq split: StackEntry.splits)

theorem unpack_total_witness:
  "(([EntryNumber 5, EntryBoolean True] = [] \<or> (\<forall>s. last [EntryNumber 5, EntryBoolean True] \<noteq> EntryString s))
     \<and> unpack (PackedArray [EntryNumber 5, EntryBoolean True]) = PackStruct [] [])
   \<and> unpack (PackedArray [EntryString [36, 37]]) = PackStruct [3, 4] []"
  using unpack_total [of "[EntryNumber 5, EntryBoolean True]" "[36, 37]"]
  by (simp add: charCode_def)


section \<open>Properties of the compiler program\<close>

lemma unshiftCoRoutines_eq:
  "i \<le> length cs \<Longrightarrow> unshiftCoRoutines i cs program = concat (take i cs) @ program"
proof (induction i arbitrary: program)
  case 0
  then show ?case by simp
next
  case (Suc i)
  then have "take (Suc i) cs = take i cs @ [cs ! i]"
    by (simp add: take_Suc_conv_app_nth)
  with Suc show ?case by simp
qed

lemma pushOp_fields [simp]:
  "coRoutines (pushOp newOps p) = coRoutines p" "mainOffset (pushOp newOps p) = mainOffset p"
  by (simp_all add: pushOp_def)

lemma pushOpAtFrame_fields [simp]:
  "coRoutines (pushOpAtFrame fr newOps p) = coRoutines p"
  "mainOffset (pushOpAtFrame fr newOps p) = mainOffset p"
  by (simp_all add: pushOpAtFrame_def)

lemma pushFrame_fields [simp]:
  "coRoutines (pushFrame implicit p) = coRoutines p" "mainOffset (pushFrame implicit p) = mainOffset p"
  by (simp_all add: pushFrame_def Let_def)

lemma popFrame_fields [simp]:
  "coRoutines (popFrame p) = coRoutines p" "mainOffset (popFrame p) = mainOffset p"
  by (simp_all add: popFrame_def split: list.splits)

lemma updateFrameAt_fields [simp]:
  "coRoutines (updateFrameAt d g p) = coRoutines p" "mainOffset (updateFrameAt d g p) = mainOffset p"
  by (simp_all add: updateFrameAt_def split: nat.splits)

lemma findOrAddStackEntry_fields [simp]:
  "coRoutines (snd (findOrAddStackEntry e p)) = coRoutines p"
  "mainOffset (snd (findOrAddStackEntry e p)) = mainOffset p"
  by (simp_all add: findOrAddStackEntry_def pushStack_def split: option.splits)

lemma popCoRoutine_mainOffsetOk:
  assumes "mainOffsetOk p" "popCoRoutine p = Returns (i, p')"
  shows "mainOffsetOk p'"
  using assms
  by (auto simp: popCoRoutine_def mainOffsetOk_def Let_def split: if_splits)

lemma reachable_mainOffsetOk: "reachable p \<Longrightarrow> mainOffsetOk p"
proof (induction rule: reachable.induct)
  case r_new
  then show ?case by (simp add: mainOffsetOk_def newCompilerProgram_def)
next
  case (r_popCoRoutine p i p')
  then show ?case using popCoRoutine_mainOffsetOk by blast
qed (simp_all add: mainOffsetOk_def pushStack_def increaseStackPosition_def pushConditionalFrame_def
      pushVariable_def pushTemplateParameter_def pushCoRoutine_def Let_def split_beta)

lemma oneCoRoutine_reachable: "reachable oneCoRoutine"
proof -
  have "reachable (pushOp [ReflectionOp_string] (pushCoRoutine newCompilerProgram))"
    by (intro reachable.intros)
  moreover have "popCoRoutine (pushOp [ReflectionOp_string] (pushCoRoutine newCompilerProgram))
      = Returns (2, newCompilerProgram\<lparr>mainOffset := 4,
                      coRoutines := [[ReflectionOp_string, ReflectionOp_return]]\<rparr>)"
    by (simp add: popCoRoutine_def pushOp_def pushCoRoutine_def pushFrame_def popFrame_def
        newCompilerProgram_def newFrame_def Let_def)
  ultimately have "reachable (newCompilerProgram\<lparr>mainOffset := 4,
      coRoutines := [[ReflectionOp_string, ReflectionOp_return]]\<rparr>)"
    by (rule r_popCoRoutine)
  then have "reachable (pushOp [ReflectionOp_number] (newCompilerProgram\<lparr>mainOffset := 4,
      coRoutines := [[ReflectionOp_string, ReflectionOp_return]]\<rparr>))"
    by (rule r_pushOp)
  then show ?thesis
    by (simp add: oneCoRoutine_def pushOp_def newCompilerProgram_def)
qed

text \<open>
  C6. For a program built by the methods of \<open>CompilerProgram\<close>: when coroutines have been
  completed, \<open>buildPackStruct\<close> gives \<open>jump, mainOffset\<close>, then the completed coroutines in
  the order of their completion, then the main program, and \<open>mainOffset\<close> is the number of
  values before the main program, that is the index of the first value after the last
  coroutine; when none has been completed the output is the main buffer alone.
\<close>

theorem buildPackStruct_layout:
  assumes "reachable p"
  shows "(coRoutines p \<noteq> [] \<longrightarrow>
            buildPackStruct p =
              PackStruct ([ReflectionOp_jump, int (2 + length (concat (coRoutines p)))]
                          @ concat (coRoutines p) @ ops p) (stack p))
       \<and> (coRoutines p = [] \<longrightarrow> buildPackStruct p = PackStruct (ops p) (stack p))"
  using reachable_mainOffsetOk [OF assms]
  by (simp add: buildPackStruct_def mainOffsetOk_def unshiftCoRoutines_eq Let_def)

theorem buildPackStruct_layout_witness:
  "reachable oneCoRoutine \<and> coRoutines oneCoRoutine \<noteq> []
   \<and> buildPackStruct oneCoRoutine = PackStruct [64, 4, 3, 40, 4] []
   \<and> reachable newCompilerProgram \<and> coRoutines newCompilerProgram = []
   \<and> buildPackStruct newCompilerProgram = PackStruct [] []"
  using buildPackStruct_layout [OF oneCoRoutine_reachable] buildPackStruct_layout [OF r_new]
    oneCoRoutine_reachable r_new
  by (simp add: oneCoRoutine_def newCompilerProgram_def ReflectionOp_jump_def ReflectionOp_string_def
      ReflectionOp_return_def ReflectionOp_number_def)

text \<open>
  C5, as stated, fails: popping a frame when none is open is a silent no-op, and \<open>pack\<close>
  encodes a value beyond the ceiling of 64 like any other (here the opcode \<open>extends\<close>,
  68, which even decodes back).
\<close>

theorem invariant_violations_counterexample:
  "popFrame newCompilerProgram = newCompilerProgram
   \<and> packSize \<le> ReflectionOp_extends
   \<and> pack (OfOps [ReflectionOp_extends]) = PackedString [101]
   \<and> unpack (pack (OfOps [ReflectionOp_extends])) = PackStruct [ReflectionOp_extends] []"
  by (simp add: popFrame_def newCompilerProgram_def packSize_def packSizeByte_def
      ReflectionOp_extends_def fromCharCode_def charCode_def)

lemma decode_encode_mod:
  "unpackOps [] (map (\<lambda>v. fromCharCode (v + 33)) vs) = map (\<lambda>v. (v + 33) mod 65536 - 33) vs"
proof -
  have "charCode (fromCharCode (v + 33)) = (v + 33) mod 65536" for v
  proof -
    have "uint (word_of_int (v + 33) :: 16 word) = (v + 33) mod 2 ^ LENGTH(16)"
      by (rule uint_word_of_int)
    then show ?thesis by (simp only: charCode_def fromCharCode_def) simp
  qed
  then show ?thesis by (simp add: unpackOps_eq)
qed

text \<open>
  C5, amended. Closing a coroutine when none is open throws. Popping a frame when no
  frame is open leaves the program as it is. \<open>pack\<close> checks no ceiling: every value \<open>v\<close> is
  written as the code unit \<open>(v + 33) mod 2^16\<close>, which is what \<open>unpack\<close> reads back.
\<close>

theorem invariant_violations:
  "(activeCoRoutines p = [] \<longrightarrow> popCoRoutine p = Throws NoActiveCoRoutine)
   \<and> (previous p = [] \<longrightarrow> popFrame p = p)
   \<and> unpack (pack (OfPackStruct (PackStruct vs st)))
       = PackStruct (map (\<lambda>v. (v + 33) mod 65536 - 33) vs) st"
proof -
  have "unpack (pack (OfPackStruct (PackStruct vs st)))
       = PackStruct (map (\<lambda>v. (v + 33) mod 65536 - 33) vs) st"
  proof (cases "st = []")
    case True
    then show ?thesis using decode_encode_mod [of vs] by simp
  next
    case False
    then have "length st + 1 > 1" by (cases st) simp_all
    then show ?thesis using False decode_encode_mod [of vs] by (simp add: Let_def)
  qed
  then show ?thesis by (simp add: popCoRoutine_def popFrame_def)
qed

theorem invariant_violations_witness:
  "(activeCoRoutines newCompilerProgram = [] \<and> popCoRoutine newCompilerProgram = Throws NoActiveCoRoutine)
   \<and> (previous newCompilerProgram = [] \<and> popFrame newCompilerProgram = newCompilerProgram)
   \<and> unpack (pack (OfPackStruct (PackStruct [65600] []))) = PackStruct [64] []"
  using invariant_violations [of newCompilerProgram "[65600]" "[]"]
  by (simp add: newCompilerProgram_def)

section \<open>Properties of the walker\<close>

text \<open>
  A type reference whose name reads as \<open>undefined\<close> in \<open>knownClasses\<close>, is not \<open>Promise\<close>,
  not a numeric brand and not a bound variable, and for which the resolver finds no
  declaration, makes the walker push the single op \<open>any\<close>; the walk returns and nothing
  else changes.
\<close>

lemma unresolved_reference_emits_any:
  assumes "case typeName of
             Identifier text \<Rightarrow>
               knownClasses text = NotKnown \<and> text \<noteq> js ''Promise'' \<and> text \<noteq> js ''integer''
               \<and> text \<noteq> js ''int8'' \<and> text \<noteq> js ''int16'' \<and> findVariable (chain p) text 0 = None
           | QualifiedName left right \<Rightarrow> True"
    and "resolveDeclaration H (Name typeName) = None"
  shows "extractPackStructOfType (Suc (Suc n)) H (TypeReference typeName typeArguments) (t, p)
           = Returns (t, pushOp [ReflectionOp_any] p)"
  using assms by (cases typeName) (simp_all add: referenceCase_def Let_def)

lemma inherited_members: "list_all (\<lambda>nm. knownClasses nm = InheritedMember) objectPrototypeMembers"
  by code_simp

lemma inherited_member:
  "nm \<in> set objectPrototypeMembers \<Longrightarrow> knownClasses nm = InheritedMember"
  using inherited_members by (simp add: list_all_iff)

text \<open>
  C7. The reference \<open>valueOf\<close> names no known class, no numeric brand and no bound
  variable, and the resolver finds no declaration for it; the walker does not push \<open>any\<close>:
  \<open>this.knownClasses['valueOf']\<close> reads the function inherited from \<open>Object.prototype\<close>,
  which is truthy, and the first branch pushes that function as the op. The same walk of
  the unresolved reference \<open>Foo\<close> pushes \<open>any\<close>. For each of the twelve names that
  \<open>Object.prototype\<close> defines the walk ends in that first branch, whatever the resolver,
  the type arguments and the program.
\<close>

theorem inherited_member_pushed_as_op:
  "resolveDeclaration (plainHost (\<lambda>name. None)) (Name (Identifier (js ''valueOf''))) = None
   \<and> findVariable (chain newCompilerProgram) (js ''valueOf'') 0 = None
   \<and> extractPackStructOfType 2 (plainHost (\<lambda>name. None)) (TypeReference (Identifier (js ''valueOf'')) None)
        (always, newCompilerProgram) = NonNumericOp
   \<and> extractPackStructOfType 2 (plainHost (\<lambda>name. None)) (TypeReference (Identifier (js ''Foo'')) None)
        (always, newCompilerProgram) = Returns (always, newCompilerProgram\<lparr>ops := [ReflectionOp_any]\<rparr>)
   \<and> map (\<lambda>nm. extractPackStructOfType (Suc (Suc n)) H (TypeReference (Identifier nm) typeArguments) s)
        objectPrototypeMembers = map (\<lambda>nm. NonNumericOp) objectPrototypeMembers"
proof (intro conjI)
  show "resolveDeclaration (plainHost (\<lambda>name. None)) (Name (Identifier (js ''valueOf''))) = None"
    by (simp add: plainHost_def)
  show "findVariable (chain newCompilerProgram) (js ''valueOf'') 0 = None"
    by (simp add: chain_def newCompilerProgram_def newFrame_def)
  show "extractPackStructOfType 2 (plainHost (\<lambda>name. None)) (TypeReference (Identifier (js ''valueOf'')) None)
        (always, newCompilerProgram) = NonNumericOp"
    by code_simp
  show "extractPackStructOfType 2 (plainHost (\<lambda>name. None)) (TypeReference (Identifier (js ''Foo'')) None)
        (always, newCompilerProgram) = Returns (always, newCompilerProgram\<lparr>ops := [ReflectionOp_any]\<rparr>)"
    by code_simp
  have "extractPackStructOfType (Suc (Suc n)) H (TypeReference (Identifier nm) typeArguments) s = NonNumericOp"
    if "nm \<in> set objectPrototypeMembers" for nm
    using inherited_member [OF that] by (simp add: referenceCase_def Let_def)
  then show "map (\<lambda>nm. extractPackStructOfType (Suc (Suc n)) H (TypeReference (Identifier nm) typeArguments) s)
        objectPrototypeMembers = map (\<lambda>nm. NonNumericOp) objectPrototypeMembers"
    by (intro map_cong) simp_all
qed

text \<open>
  C4. The walk of \<open>{ a: string & number }\<close> from a new program returns with a frame still
  open: the intersection case pushes a frame (and emits its \<open>frame\<close> op) and never pops
  it. The union case beside it pops its frame, and the same walk with a union ends with
  the chain as it began.
\<close>

theorem intersection_frame_left_open:
  "extractPackStructOfType 5 (plainHost (\<lambda>name. None)) intersectionInLiteral (always, newCompilerProgram)
     = Returns (always, newCompilerProgram\<lparr>
         ops := [ReflectionOp_frame, ReflectionOp_frame, ReflectionOp_string, ReflectionOp_number,
                 ReflectionOp_intersection, ReflectionOp_propertySignature, 0, ReflectionOp_objectLiteral],
         stack := [EntryString (js ''a'')], stackPosition := 1,
         frame := newFrame 1, previous := [newFrame 0]\<rparr>)
   \<and> extractPackStructOfType 5 (plainHost (\<lambda>name. None)) unionInLiteral (always, newCompilerProgram)
     = Returns (always, newCompilerProgram\<lparr>
         ops := [ReflectionOp_frame, ReflectionOp_frame, ReflectionOp_string, ReflectionOp_number,
                 ReflectionOp_union, ReflectionOp_propertySignature, 0, ReflectionOp_objectLiteral],
         stack := [EntryString (js ''a'')], stackPosition := 1\<rparr>)"
  by code_simp

subsection \<open>Variables of a conditional type\<close>







lemma chain_pushOpAtFrame [simp]: "chain (pushOpAtFrame fr newOps p) = chain p"
  by (simp add: chain_def pushOpAtFrame_def)

lemma chain_pushOp [simp]: "chain (pushOp newOps p) = chain p"
  by (simp add: chain_def pushOp_def)

lemma ops_updateFrameAt [simp]: "ops (updateFrameAt d g p) = ops p"
  by (simp add: updateFrameAt_def split: nat.splits)

lemma activeCoRoutines_updateFrameAt [simp]:
  "activeCoRoutines (updateFrameAt d g p) = activeCoRoutines p"
  by (simp add: updateFrameAt_def split: nat.splits)



lemma activeOps_updateFrameAt [simp]: "activeOps (updateFrameAt d g p) = activeOps p"
  by (simp add: activeOps_def)





text \<open>
  The whole walk of \<open>{ [K in string]: K extends infer X ? X : never }\<close>: the conditional
  frame is opened inside the coroutine of the mapped type, and the \<open>var\<close> op of \<open>X\<close>
  follows its \<open>frame\<close> op there.
\<close>

lemma infer_in_mapped_type:
  "extractPackStructOfType 6 (plainHost (\<lambda>name. None)) inferInMapped (always, newCompilerProgram)
     = Returns (always, newCompilerProgram\<lparr>
         ops := [ReflectionOp_frame, ReflectionOp_var, ReflectionOp_string, ReflectionOp_mappedType, 2, 0],
         mainOffset := 17,
         coRoutines := [[ReflectionOp_frame, ReflectionOp_var, ReflectionOp_loads, 2, 0,
                         ReflectionOp_infer, 0, 0, ReflectionOp_extends, ReflectionOp_loads, 0, 0,
                         ReflectionOp_never, ReflectionOp_condition, ReflectionOp_return]]\<rparr>)"
  by code_simp

section \<open>Properties of the tree rewriter\<close>




subsection \<open>The hoisting pass on a self-referential interface\<close>

lemma first_pass:
  "visitOne (visitor 10 (plainHost selfResolver)) (SourceFile [] [selfDeclaration, selfUser []]) always
   = Returns (selfFile 0, selfQueued)"
  by code_simp

lemma visit_binding:
  "visitNode (compileDeclarationsVisitor m H) selfBinding t = Returns ([selfBinding], t)"
  by (simp add: selfBinding_def)

lemma visit_user:
  "visitNode (compileDeclarationsVisitor m H) (selfUser [selfType]) t = Returns ([selfUser [selfType]], t)"
  by (simp add: selfUser_def selfType_def typeMember_def)

lemma visit_bindings:
  "visitNodes (compileDeclarationsVisitor m H) (replicate k selfBinding @ [selfUser [selfType]]) t
     = Returns (replicate k selfBinding @ [selfUser [selfType]], t)"
  by (induction k) (simp_all add: visit_binding visit_user del: visitNode.simps)

lemma visit_self:
  "visitNode (compileDeclarationsVisitor 10 (plainHost selfResolver)) selfDeclaration selfQueued
     = Returns ([selfDeclaration, selfBinding], selfQueued)"
  by code_simp

lemma pass:
  "visitOne (compileDeclarationsVisitor 10 (plainHost selfResolver)) (selfFile k) selfQueued
     = Returns (selfFile (Suc k), selfQueued)"
proof -
  let ?post = "compileDeclarationsVisitor 10 (plainHost selfResolver)"
  let ?rest = "replicate k selfBinding @ [selfUser [selfType]]"
  have "visitNodes ?post (selfDeclaration # ?rest) selfQueued
          = Returns ([selfDeclaration, selfBinding] @ ?rest, selfQueued)"
    by (simp add: visit_self visit_bindings del: visitNode.simps)
  then have "visitEachChild ?post (SourceFile [] (selfDeclaration # ?rest)) selfQueued
          = Returns (SourceFile [] (selfDeclaration # selfBinding # ?rest), selfQueued)"
    by (simp del: visitNode.simps visitNodes.simps)
  then have "visitNode ?post (SourceFile [] (selfDeclaration # ?rest)) selfQueued
          = Returns ([SourceFile [] (selfDeclaration # selfBinding # ?rest)], selfQueued)"
    by (simp del: visitEachChild.simps)
  then show ?thesis
    by (simp add: selfFile_def del: visitNode.simps)
qed

lemma selfQueued_nonempty: "length (compileDeclarations selfQueued) > 0"
  by (simp add: selfQueued_def)

lemma loops: "hoistLoop fuel 10 (plainHost selfResolver) (selfFile k, selfQueued) = OutOfFuel"
proof (induction fuel arbitrary: k)
  case 0
  then show ?case using selfQueued_nonempty by simp
next
  case (Suc fuel)
  then show ?case using selfQueued_nonempty by (simp add: pass del: visitOne.simps)
qed

text \<open>
  C3. For the file \<open>interface Node { next: Node }  class M { n: Node }\<close> the first visitor
  queues the interface. Each hoisting pass returns: it takes the interface from the queue,
  compiles it, emits one more binding, and, the body naming the interface again, leaves
  it queued. So the queue is never empty and the loop is still running after any number of
  passes.
\<close>

theorem self_reference_never_drains:
  "visitOne (compileDeclarationsVisitor 10 (plainHost selfResolver)) (selfFile 0) selfQueued
     = Returns (selfFile (Suc 0), selfQueued)
   \<and> (\<forall>fuel. transformSourceFile fuel 10 (plainHost selfResolver)
                (SourceFile [] [selfDeclaration, selfUser []]) always = OutOfFuel)"
proof -
  have "findReflectionConfig (plainHost selfResolver) always [] \<noteq> never"
    by code_simp
  then show ?thesis
    using pass [of 0]
    by (simp add: transformSourceFile_def sourceFileDoc_def first_pass loops
          del: visitOne.simps hoistLoop.simps)
qed


subsection \<open>Hoisted bindings\<close>

text \<open>
  C2. In mode \<open>always\<close>: for \<open>type A = string; class M { x: A }\<close> the transformed file
  holds the hoisted binding of \<open>A\<close> once, right after the alias. For
  \<open>class M { x: B }\<close>, with \<open>B\<close> a type alias reached through an import binding, the
  class receives a \<open>__type\<close> member whose stack names the hoisted binding of \<open>B\<close>, but
  the file holds no such binding: the alias was put in the embed-foreign queue, which
  \<open>transformSourceFile\<close> tests and never reads. For
  \<open>type A = string; type C = A; class M { x: A; y: C }\<close> the binding of \<open>A\<close> is emitted
  twice: compiling \<open>C\<close> in the first hoisting pass queues \<open>A\<close> again after \<open>A\<close> was
  hoisted, and the second pass hoists it once more.
\<close>

theorem imported_alias_never_hoisted:
  "transformSourceFile 5 10 (plainHost aliasResolver) (SourceFile [] [localAlias, localUser []]) always
     = Returns (SourceFile []
          [localAlias, localBinding,
           localUser [typeMember (Some (ArrayLiteralExpression
             [Name (Identifier (omegaPrefix @ js ''A'')), StringLiteral (js ''x''),
              StringLiteral (map (\<lambda>v. fromCharCode (v + 33))
                [ReflectionOp_inline, 0, ReflectionOp_property, 1, ReflectionOp_class])]))]],
        always)
   \<and> transformSourceFile 5 10 (plainHost aliasResolver) (SourceFile [] [importUser []]) always
     = Returns (SourceFile []
          [importUser [typeMember (Some (ArrayLiteralExpression
             [Name (Identifier (omegaPrefix @ js ''B'')), StringLiteral (js ''x''),
              StringLiteral (map (\<lambda>v. fromCharCode (v + 33))
                [ReflectionOp_inline, 0, ReflectionOp_property, 1, ReflectionOp_class])]))]],
        importQueued)
   \<and> transformSourceFile 5 10 (plainHost aliasResolver)
        (SourceFile [] [localAlias, chainedAlias, chainUser []]) always
     = Returns (SourceFile []
          [localAlias, localBinding, localBinding, chainedAlias, chainedBinding,
           chainUser [typeMember (Some (ArrayLiteralExpression
             [Name (Identifier (omegaPrefix @ js ''A'')), StringLiteral (js ''x''),
              Name (Identifier (omegaPrefix @ js ''C'')), StringLiteral (js ''y''),
              StringLiteral (map (\<lambda>v. fromCharCode (v + 33))
                [ReflectionOp_inline, 0, ReflectionOp_property, 1,
                 ReflectionOp_inline, 2, ReflectionOp_property, 3, ReflectionOp_class])]))]],
        always)"
  by code_simp

end
